theory Spec2Isabelle
  imports Main
begin

section \<open>The process environment of the binding\<close>

text \<open>
  The binding \<^verbatim>\<open>src/binding/audiomixer-binding.c\<close> talks to the session daemon through
  \<^verbatim>\<open>getenv\<close>, \<^verbatim>\<open>socket\<close>, \<^verbatim>\<open>connect\<close>, \<^verbatim>\<open>write\<close>, \<^verbatim>\<open>read\<close> and \<^verbatim>\<open>close\<close>.
  What these calls answer is not decided by the program, so it is data of the model: the
  record \<open>sys\<close> holds the answers of the operating system, the global \<^verbatim>\<open>errno\<close>, and a
  trace of every call the program made together with what it returned.

  Conventions: a HOL \<open>string\<close> is the content of a C string without its terminator.
  Values of type \<^verbatim>\<open>int\<close>, \<^verbatim>\<open>ssize_t\<close> and \<^verbatim>\<open>size_t\<close> are \<open>int\<close> and \<open>nat\<close>: the lengths that
  occur (the value of an environment variable, the arguments of a request, a command of at
  most 99 and a reply of at most 10 bytes) are far below \<open>2 ^ 31\<close>, so no arithmetic of the
  program wraps. \<^verbatim>\<open>EINTR\<close> and \<^verbatim>\<open>EAGAIN\<close> have their Linux values, and \<^verbatim>\<open>sun_path\<close> its
  Linux size of 108 bytes.
\<close>

type_synonym errno = int

definition EINTR :: errno where
  "EINTR = 4"

definition EAGAIN :: errno where
  "EAGAIN = 11"

text \<open>What one call of \<^verbatim>\<open>write\<close> or \<^verbatim>\<open>read\<close> meets in the kernel.\<close>

datatype 'a answer =
    Err errno  \<comment> \<open>the call returns \<open>-1\<close> and sets \<^verbatim>\<open>errno\<close>\<close>
  | Ok 'a

datatype event =
    Socket int  \<comment> \<open>\<^verbatim>\<open>socket(PF_LOCAL, SOCK_STREAM | SOCK_CLOEXEC, 0)\<close> and its return value\<close>
  | Connect int string int  \<comment> \<open>descriptor, \<^verbatim>\<open>sun_path\<close>, return value\<close>
  | Write int string int  \<comment> \<open>descriptor, the bytes offered, return value\<close>
  | Read int nat int  \<comment> \<open>descriptor, the count asked for, return value\<close>
  | Close int
  | Perror string
  | Stderr string  \<comment> \<open>\<^verbatim>\<open>fprintf(stderr, ...)\<close>\<close>

record sys =
  environ :: "(string \<times> string) list"  \<comment> \<open>the variables of the environment and their values\<close>
  socket_ret :: int  \<comment> \<open>what \<^verbatim>\<open>socket\<close> returns: a descriptor, or a negative value\<close>
  connect_ret :: int  \<comment> \<open>what \<^verbatim>\<open>connect\<close> returns\<close>
  write_ans :: "nat \<Rightarrow> nat answer"
    \<comment> \<open>for the k-th call of \<^verbatim>\<open>write\<close>: an error, or how many bytes the kernel takes\<close>
  read_ans :: "nat \<Rightarrow> string answer"
    \<comment> \<open>for the k-th call of \<^verbatim>\<open>read\<close>: an error, or the bytes waiting in the socket
        (none: the peer has closed the connection)\<close>
  n_write :: nat  \<comment> \<open>calls of \<^verbatim>\<open>write\<close> made so far\<close>
  n_read :: nat  \<comment> \<open>calls of \<^verbatim>\<open>read\<close> made so far\<close>
  errno :: errno
  trace :: "event list"

definition log :: "event \<Rightarrow> sys \<Rightarrow> sys" where
  "log e s = s\<lparr>trace := trace s @ [e]\<rparr>"

definition getenv :: "string \<Rightarrow> sys \<Rightarrow> string option" where
  "getenv name s = map_of (environ s) name"

definition sys_socket :: "sys \<Rightarrow> int \<times> sys" where
  "sys_socket s = (socket_ret s, log (Socket (socket_ret s)) s)"

definition sys_connect :: "int \<Rightarrow> string \<Rightarrow> sys \<Rightarrow> int \<times> sys" where
  "sys_connect fd path s = (connect_ret s, log (Connect fd path (connect_ret s)) s)"

definition sys_close :: "int \<Rightarrow> sys \<Rightarrow> sys" where
  "sys_close fd s = log (Close fd) s"

text \<open>
  \<^verbatim>\<open>write(fd, buf, n)\<close> with \<open>n = length buf\<close>: the kernel takes at most \<open>n\<close> bytes.
\<close>

definition sys_write :: "int \<Rightarrow> string \<Rightarrow> sys \<Rightarrow> int \<times> sys" where
  "sys_write fd buf s =
     (case write_ans s (n_write s) of
        Err e \<Rightarrow> (-1, log (Write fd buf (-1)) (s\<lparr>n_write := Suc (n_write s), errno := e\<rparr>))
      | Ok n \<Rightarrow>
          (let r = int (min n (length buf))
           in (r, log (Write fd buf r) (s\<lparr>n_write := Suc (n_write s)\<rparr>))))"

subsection \<open>Character arrays\<close>

text \<open>
  A \<^verbatim>\<open>char\<close> array is the list of its cells; a cell that was never written holds no
  value (\<open>None\<close>). A store outside the array is undefined behaviour in C: the model stops
  there with a \<open>fault\<close>.
\<close>

type_synonym cbuf = "char option list"

datatype fault =
    Out_of_bounds nat  \<comment> \<open>a store at this index, at or past the end of the array\<close>
  | Unterminated  \<comment> \<open>a string read that meets an indeterminate cell or the end of the array\<close>
  | Null_string  \<comment> \<open>\<^verbatim>\<open>%s\<close> given a null pointer\<close>
  | Not_representable  \<comment> \<open>\<^verbatim>\<open>atoi\<close> of a number that does not fit \<^verbatim>\<open>int\<close>\<close>

definition store :: "cbuf \<Rightarrow> nat \<Rightarrow> char \<Rightarrow> fault + cbuf" where
  "store buf i c = (if i < length buf then Inr (buf[i := Some c]) else Inl (Out_of_bounds i))"

definition store_bytes :: "cbuf \<Rightarrow> string \<Rightarrow> fault + cbuf" where
  "store_bytes buf bs =
     (if length bs \<le> length buf then Inr (map Some bs @ drop (length bs) buf)
      else Inl (Out_of_bounds (length buf)))"

text \<open>The C string that starts at cell 0: the bytes before the first \<^verbatim>\<open>'\0'\<close>.\<close>

fun c_str :: "cbuf \<Rightarrow> fault + string" where
  "c_str [] = Inl Unterminated"
| "c_str (None # cells) = Inl Unterminated"
| "c_str (Some c # cells) =
     (if c = CHR 0x00 then Inr []
      else (case c_str cells of Inl f \<Rightarrow> Inl f | Inr cs \<Rightarrow> Inr (c # cs)))"

text \<open>
  \<^verbatim>\<open>read(fd, buf, count)\<close>: the kernel copies at most \<open>count\<close> of the waiting bytes to the
  start of the array and returns how many.
\<close>

definition sys_read :: "int \<Rightarrow> cbuf \<Rightarrow> nat \<Rightarrow> sys \<Rightarrow> fault + (int \<times> cbuf \<times> sys)" where
  "sys_read fd buf count s =
     (case read_ans s (n_read s) of
        Err e \<Rightarrow>
          Inr (-1, buf, log (Read fd count (-1)) (s\<lparr>n_read := Suc (n_read s), errno := e\<rparr>))
      | Ok bs \<Rightarrow>
          (case store_bytes buf (take count bs) of
             Inl f \<Rightarrow> Inl f
           | Inr buf' \<Rightarrow>
               (let r = int (length (take count bs))
                in Inr (r, buf', log (Read fd count r) (s\<lparr>n_read := Suc (n_read s)\<rparr>)))))"

section \<open>\<^verbatim>\<open>session_comm\<close>\<close>

definition NAME :: string where
  "NAME = ''pipewire-media-session''"

text \<open>
  \<^verbatim>\<open>snprintf(buf, n, ...)\<close> with the formatted text \<open>str\<close>: the string left in the array
  (at most \<open>n - 1\<close> characters) and the return value (the length of the whole text).
\<close>

definition snprintf :: "nat \<Rightarrow> string \<Rightarrow> string \<times> int" where
  "snprintf n str = (take (n - 1) str, int (length str))"

text \<open>The loop of lines 69 to 79. It returns the final \<^verbatim>\<open>r\<close>.\<close>

partial_function (option) write_loop :: "int \<Rightarrow> string \<Rightarrow> sys \<Rightarrow> (int \<times> sys) option" where
  "write_loop fd command s =
     (case sys_write fd command s of
        (r, s1) \<Rightarrow>
          if r < 0 then
            if errno s1 = EAGAIN \<or> errno s1 = EINTR then write_loop fd command s1
            else Some (0, log (Perror ''write'') s1)
          else Some (r, s1))"

text \<open>The loop of lines 86 to 96.\<close>

partial_function (option) read_loop ::
  "int \<Rightarrow> cbuf \<Rightarrow> nat \<Rightarrow> sys \<Rightarrow> (fault + (int \<times> cbuf \<times> sys)) option" where
  "read_loop fd reply reply_size s =
     (case sys_read fd reply reply_size s of
        Inl f \<Rightarrow> Some (Inl f)
      | Inr (r, reply1, s1) \<Rightarrow>
          if r < 0 then
            if errno s1 = EAGAIN \<or> errno s1 = EINTR then read_loop fd reply1 reply_size s1
            else Some (Inr (0, reply1, log (Perror ''read'') s1))
          else Some (Inr (r, reply1, s1)))"

declare write_loop.simps [code]

declare read_loop.simps [code]

text \<open>
  The result of \<open>session_comm\<close>: \<open>None\<close> when a retry loop never ends; otherwise the
  return value (or the fault met), the reply array and the environment afterwards.
\<close>

definition session_comm ::
  "string \<Rightarrow> cbuf \<Rightarrow> nat \<Rightarrow> sys \<Rightarrow> ((fault + int) \<times> cbuf \<times> sys) option" where
  "session_comm command reply reply_size s =
     (case getenv ''XDG_RUNTIME_DIR'' s of
        None \<Rightarrow>
          Some (Inr (-1), reply,
            log (Stderr ''connect failed: XDG_RUNTIME_DIR not set in the environment'') s)
      | Some runtime_dir \<Rightarrow>
          (case sys_socket s of
             (fd, s1) \<Rightarrow>
               if fd < 0 then Some (Inr (-1), reply, log (Perror ''socket'') s1)
               else
                 (case snprintf 108 (runtime_dir @ ''/'' @ NAME) of
                    (sun_path, n) \<Rightarrow>
                      (let name_size = n + 1 in
                       if name_size > 108 then
                         Some (Inr (-1), reply,
                           sys_close fd
                             (log (Stderr (''socket path '' @ [CHR 0x22] @ runtime_dir @ ''/'' @ NAME
                                @ [CHR 0x22] @ '' plus null terminator exceeds 108 bytes'')) s1))
                       else
                         (case sys_connect fd sun_path s1 of
                            (c, s2) \<Rightarrow>
                              if c < 0 then
                                Some (Inr (-1), reply, sys_close fd (log (Perror ''connect'') s2))
                              else
                                (case write_loop fd command s2 of
                                   None \<Rightarrow> None
                                 | Some (r, s3) \<Rightarrow>
                                     if r = 0 then
                                       Some (Inr (-1), reply,
                                         sys_close fd (log (Stderr ''Nothing was written'') s3))
                                     else
                                       (case read_loop fd reply reply_size s3 of
                                          None \<Rightarrow> None
                                        | Some (Inl f) \<Rightarrow> Some (Inl f, reply, s3)
                                        | Some (Inr (r, reply1, s4)) \<Rightarrow>
                                            if r = 0 then
                                              Some (Inr (-1), reply1,
                                                sys_close fd (log (Stderr ''EOF'') s4))
                                            else
                                              (case store reply1 (nat r) (CHR 0x00) of
                                                 Inl f \<Rightarrow> Some (Inl f, reply1, s4)
                                               | Inr reply2 \<Rightarrow>
                                                   Some (Inr 0, reply2, sys_close fd s4)))))))))"

section \<open>Numbers as text\<close>

text \<open>
  \<^verbatim>\<open>atoi(s)\<close> is \<^verbatim>\<open>(int) strtol(s, NULL, 10)\<close>: white space is skipped, one sign is read,
  then decimal digits up to the first other character; no digits give 0. When the number
  does not fit \<^verbatim>\<open>int\<close> the C standard leaves the behaviour undefined.
\<close>

definition isspace :: "char \<Rightarrow> bool" where
  "isspace c = (c \<in> set [CHR 0x20, CHR 0x09, CHR 0x0A, CHR 0x0B, CHR 0x0C, CHR 0x0D])"

definition isdigit :: "char \<Rightarrow> bool" where
  "isdigit c = (c \<in> set ''0123456789'')"

definition digit_val :: "char \<Rightarrow> int" where
  "digit_val c = int (of_char c) - 48"

definition digits_value :: "string \<Rightarrow> int" where
  "digits_value s = foldl (\<lambda>acc c. 10 * acc + digit_val c) 0 (takeWhile isdigit s)"

fun signed_value :: "string \<Rightarrow> int" where
  "signed_value [] = 0"
| "signed_value (c # cs) =
     (if c = CHR ''-'' then - digits_value cs
      else if c = CHR ''+'' then digits_value cs
      else digits_value (c # cs))"

definition strtol_value :: "string \<Rightarrow> int" where
  "strtol_value s = signed_value (dropWhile isspace s)"

definition atoi :: "string \<Rightarrow> fault + int" where
  "atoi nptr =
     (let v = strtol_value nptr
      in if - (2 ^ 31) \<le> v \<and> v < 2 ^ 31 then Inr v else Inl Not_representable)"

text \<open>The conversions \<^verbatim>\<open>%d\<close> and \<^verbatim>\<open>%s\<close> of \<^verbatim>\<open>snprintf\<close>.\<close>

fun dec_digits :: "nat \<Rightarrow> string" where
  "dec_digits n =
     (if n < 10 then [''0123456789'' ! n]
      else dec_digits (n div 10) @ [''0123456789'' ! (n mod 10)])"

definition fmt_d :: "int \<Rightarrow> string" where
  "fmt_d i = (if i < 0 then CHR ''-'' # dec_digits (nat (- i)) else dec_digits (nat i))"

definition fmt_s :: "string option \<Rightarrow> fault + string" where
  "fmt_s p = (case p of None \<Rightarrow> Inl Null_string | Some str \<Rightarrow> Inr str)"

section \<open>The verb handlers\<close>

text \<open>
  A request carries named arguments; \<^verbatim>\<open>afb_req_value\<close> gives the argument of that name, or
  a null pointer. A handler answers with \<^verbatim>\<open>afb_req_fail(request, status, info)\<close> or with
  \<^verbatim>\<open>afb_req_success(request, obj, NULL)\<close>, where \<open>obj\<close> is a JSON object of integer
  fields.
\<close>

type_synonym afb_req = "(string \<times> string) list"

definition afb_req_value :: "afb_req \<Rightarrow> string \<Rightarrow> string option" where
  "afb_req_value request name = map_of request name"

datatype afb_reply =
    Req_fail string string
  | Req_success "(string \<times> int) list"

type_synonym handler = "afb_req \<Rightarrow> sys \<Rightarrow> ((fault + afb_reply) \<times> sys) option"

text \<open>
  In each handler \<^verbatim>\<open>char command[100]\<close> receives the formatted command and
  \<^verbatim>\<open>char reply[10]\<close> starts indeterminate. The local \<^verbatim>\<open>int\<close> of the verb's name is
  written twice in the source: from the request (index 0 here) and from the reply (index 1).
\<close>

definition volume :: handler where
  "volume request s =
     (let role = afb_req_value request ''role'';
          value = afb_req_value request ''value''
      in case (case value of None \<Rightarrow> Inr (-1) | Some v \<Rightarrow> atoi v) of
           Inl f \<Rightarrow> Some (Inl f, s)
         | Inr volume0 \<Rightarrow>
             if value \<noteq> None \<and> (volume0 < 0 \<or> volume0 > 100) then
               Some (Inr (Req_fail ''failed'' ''Invalid volume value (must be between 0 and 100)''), s)
             else
               (case fmt_s role of
                  Inl f \<Rightarrow> Some (Inl f, s)
                | Inr role_s \<Rightarrow>
                    (case snprintf 100 (''volume '' @ role_s @ '' '' @ fmt_d volume0) of
                       (command, _) \<Rightarrow>
                         (case session_comm command (replicate 10 None) 10 s of
                            None \<Rightarrow> None
                          | Some (Inl f, reply, s') \<Rightarrow> Some (Inl f, s')
                          | Some (Inr rc, reply, s') \<Rightarrow>
                              if rc < 0 then
                                Some (Inr (Req_fail ''failed''
                                  ''media-session communication failed''), s')
                              else
                                (case c_str reply of
                                   Inl f \<Rightarrow> Some (Inl f, s')
                                 | Inr str \<Rightarrow>
                                     (case atoi str of
                                        Inl f \<Rightarrow> Some (Inl f, s')
                                      | Inr volume1 \<Rightarrow>
                                          if volume1 < 0 then
                                            Some (Inr (Req_fail ''failed''
                                              ''media-session replied -1''), s')
                                          else
                                            Some (Inr (Req_success
                                              [(''volume'', volume1)]), s')))))))"

definition mute :: handler where
  "mute request s =
     (let role = afb_req_value request ''role'';
          value = afb_req_value request ''value''
      in case (case value of None \<Rightarrow> Inr (-1) | Some v \<Rightarrow> atoi v) of
           Inl f \<Rightarrow> Some (Inl f, s)
         | Inr mute0 \<Rightarrow>
             if value \<noteq> None \<and> (mute0 < 0 \<or> mute0 > 1) then
               Some (Inr (Req_fail ''failed'' ''Invalid mute value (must be between 0 and 1)''), s)
             else
               (case fmt_s role of
                  Inl f \<Rightarrow> Some (Inl f, s)
                | Inr role_s \<Rightarrow>
                    (case snprintf 100 (''mute '' @ role_s @ '' '' @ fmt_d mute0) of
                       (command, _) \<Rightarrow>
                         (case session_comm command (replicate 10 None) 10 s of
                            None \<Rightarrow> None
                          | Some (Inl f, reply, s') \<Rightarrow> Some (Inl f, s')
                          | Some (Inr rc, reply, s') \<Rightarrow>
                              if rc < 0 then
                                Some (Inr (Req_fail ''failed''
                                  ''media-session communication failed''), s')
                              else
                                (case c_str reply of
                                   Inl f \<Rightarrow> Some (Inl f, s')
                                 | Inr str \<Rightarrow>
                                     (case atoi str of
                                        Inl f \<Rightarrow> Some (Inl f, s')
                                      | Inr mute1 \<Rightarrow>
                                          if mute1 < 0 then
                                            Some (Inr (Req_fail ''failed''
                                              ''media-session replied -1''), s')
                                          else
                                            Some (Inr (Req_success
                                              [(''mute'', mute1)]), s')))))))"

definition zone :: handler where
  "zone request s =
     (let role = afb_req_value request ''role'';
          value = afb_req_value request ''value''
      in case (case value of None \<Rightarrow> Inr (-1) | Some v \<Rightarrow> atoi v) of
           Inl f \<Rightarrow> Some (Inl f, s)
         | Inr zone0 \<Rightarrow>
             if value \<noteq> None \<and> (zone0 < 0 \<or> zone0 > 4) then
               Some (Inr (Req_fail ''failed'' ''Invalid mute value (must be between 0 and 4)''), s)
             else
               (case fmt_s role of
                  Inl f \<Rightarrow> Some (Inl f, s)
                | Inr role_s \<Rightarrow>
                    (case snprintf 100 (''zone '' @ role_s @ '' '' @ fmt_d zone0) of
                       (command, _) \<Rightarrow>
                         (case session_comm command (replicate 10 None) 10 s of
                            None \<Rightarrow> None
                          | Some (Inl f, reply, s') \<Rightarrow> Some (Inl f, s')
                          | Some (Inr rc, reply, s') \<Rightarrow>
                              if rc < 0 then
                                Some (Inr (Req_fail ''failed''
                                  ''media-session communication failed''), s')
                              else
                                (case c_str reply of
                                   Inl f \<Rightarrow> Some (Inl f, s')
                                 | Inr str \<Rightarrow>
                                     (case atoi str of
                                        Inl f \<Rightarrow> Some (Inl f, s')
                                      | Inr zone1 \<Rightarrow>
                                          if zone1 < 0 then
                                            Some (Inr (Req_fail ''failed''
                                              ''media-session replied -1''), s')
                                          else
                                            Some (Inr (Req_success
                                              [(''zone'', zone1)]), s')))))))"


text \<open>The table \<^verbatim>\<open>verbs\<close> of lines 214 to 219, with the range and the message of each handler.\<close>

definition handlers :: "(string \<times> handler \<times> int \<times> string) list" where
  "handlers =
     [(''volume'', volume, 100, ''Invalid volume value (must be between 0 and 100)''),
      (''mute'', mute, 1, ''Invalid mute value (must be between 0 and 1)''),
      (''zone'', zone, 4, ''Invalid mute value (must be between 0 and 4)'')]"

section \<open>Vocabulary of the properties\<close>

text \<open>
  The definitions of this section are not code of the binding: they name situations of the
  environment and shapes of the trace, so that the theorems can be stated.
\<close>

text \<open>From call \<open>i\<close> on, \<open>k\<close> calls in a row fail with \<^verbatim>\<open>EAGAIN\<close> or \<^verbatim>\<open>EINTR\<close>.\<close>

fun retried :: "(nat \<Rightarrow> 'a answer) \<Rightarrow> nat \<Rightarrow> nat \<Rightarrow> bool" where
  "retried ans i 0 = True"
| "retried ans i (Suc k) =
     (case ans i of
        Err e \<Rightarrow> (e = EAGAIN \<or> e = EINTR) \<and> retried ans (Suc i) k
      | Ok v \<Rightarrow> False)"

definition fatal_error :: "'a answer \<Rightarrow> bool" where
  "fatal_error a = (case a of Err e \<Rightarrow> e \<noteq> EAGAIN \<and> e \<noteq> EINTR | Ok v \<Rightarrow> False)"

text \<open>
  The call gets as far as the write loop: the variable is set, the socket exists, the path
  with its terminator fits \<^verbatim>\<open>sun_path\<close>, and \<^verbatim>\<open>connect\<close> succeeds.
\<close>

definition connected :: "sys \<Rightarrow> bool" where
  "connected s =
     (case getenv ''XDG_RUNTIME_DIR'' s of
        None \<Rightarrow> False
      | Some dir \<Rightarrow>
          0 \<le> socket_ret s \<and> length (dir @ ''/'' @ NAME) + 1 \<le> 108 \<and> 0 \<le> connect_ret s)"

text \<open>After \<open>k\<close> retries the kernel takes at least one byte of the command.\<close>

definition written :: "string \<Rightarrow> nat \<Rightarrow> sys \<Rightarrow> bool" where
  "written cmd k s =
     (retried (write_ans s) (n_write s) k \<and>
      (case write_ans s (n_write s + k) of
         Err e \<Rightarrow> False
       | Ok n \<Rightarrow> 0 < min n (length cmd)))"

definition setup_events :: "sys \<Rightarrow> event list" where
  "setup_events s =
     (case getenv ''XDG_RUNTIME_DIR'' s of
        None \<Rightarrow> []
      | Some dir \<Rightarrow>
          [Socket (socket_ret s),
           Connect (socket_ret s) (dir @ ''/'' @ NAME) (connect_ret s)])"

text \<open>\<open>k\<close> failed calls and the call after them, each offering the whole command.\<close>

definition write_events :: "string \<Rightarrow> nat \<Rightarrow> sys \<Rightarrow> event list" where
  "write_events cmd k s =
     replicate k (Write (socket_ret s) cmd (-1)) @
     [Write (socket_ret s) cmd
        (case write_ans s (n_write s + k) of
           Err e \<Rightarrow> -1
         | Ok n \<Rightarrow> int (min n (length cmd)))]"

definition read_events :: "nat \<Rightarrow> nat \<Rightarrow> sys \<Rightarrow> event list" where
  "read_events rs k s =
     replicate k (Read (socket_ret s) rs (-1)) @
     [Read (socket_ret s) rs
        (case read_ans s (n_read s + k) of
           Err e \<Rightarrow> -1
         | Ok bs \<Rightarrow> int (length (take rs bs)))]"

fun is_close :: "event \<Rightarrow> bool" where
  "is_close (Close fd) = True"
| "is_close e = False"

fun is_write :: "event \<Rightarrow> bool" where
  "is_write (Write fd buf r) = True"
| "is_write e = False"

text \<open>What the read loop leaves in the trace.\<close>

fun read_event :: "event \<Rightarrow> bool" where
  "read_event (Read fd n r) = True"
| "read_event (Perror m) = True"
| "read_event e = False"

text \<open>An event that closes nothing and, if it is a write, offers \<open>cmd\<close>.\<close>

fun inner_event :: "string \<Rightarrow> event \<Rightarrow> bool" where
  "inner_event cmd (Close fd) = False"
| "inner_event cmd (Write fd buf r) = (buf = cmd)"
| "inner_event cmd e = True"

text \<open>The ways the transport can fail, with the number of retries before the failure.\<close>

datatype cause =
    Env_unset
  | Socket_failed
  | Address_too_long
  | Connect_failed
  | Write_failed nat
  | Nothing_written nat
  | Read_failed nat nat
  | Unexpected_eof nat nat

fun transport_fails :: "cause \<Rightarrow> string \<Rightarrow> nat \<Rightarrow> sys \<Rightarrow> bool" where
  "transport_fails Env_unset cmd rs s = (getenv ''XDG_RUNTIME_DIR'' s = None)"
| "transport_fails Socket_failed cmd rs s =
     (getenv ''XDG_RUNTIME_DIR'' s \<noteq> None \<and> socket_ret s < 0)"
| "transport_fails Address_too_long cmd rs s =
     (case getenv ''XDG_RUNTIME_DIR'' s of
        None \<Rightarrow> False
      | Some dir \<Rightarrow> 0 \<le> socket_ret s \<and> 108 < length (dir @ ''/'' @ NAME) + 1)"
| "transport_fails Connect_failed cmd rs s =
     (case getenv ''XDG_RUNTIME_DIR'' s of
        None \<Rightarrow> False
      | Some dir \<Rightarrow>
          0 \<le> socket_ret s \<and> length (dir @ ''/'' @ NAME) + 1 \<le> 108 \<and> connect_ret s < 0)"
| "transport_fails (Write_failed k) cmd rs s =
     (connected s \<and> retried (write_ans s) (n_write s) k \<and>
      fatal_error (write_ans s (n_write s + k)))"
| "transport_fails (Nothing_written k) cmd rs s =
     (connected s \<and> retried (write_ans s) (n_write s) k \<and>
      (case write_ans s (n_write s + k) of
         Err e \<Rightarrow> False
       | Ok n \<Rightarrow> min n (length cmd) = 0))"
| "transport_fails (Read_failed kw kr) cmd rs s =
     (connected s \<and> written cmd kw s \<and> retried (read_ans s) (n_read s) kr \<and>
      fatal_error (read_ans s (n_read s + kr)))"
| "transport_fails (Unexpected_eof kw kr) cmd rs s =
     (connected s \<and> written cmd kw s \<and> retried (read_ans s) (n_read s) kr \<and>
      (case read_ans s (n_read s + kr) of
         Err e \<Rightarrow> False
       | Ok bs \<Rightarrow> take rs bs = []))"

text \<open>
  What every handler does with the result of \<open>session_comm\<close> (lines 128 to 141 of
  \<^verbatim>\<open>volume\<close>, and the same lines of \<^verbatim>\<open>mute\<close> and \<^verbatim>\<open>zone\<close>), and the common shape of the
  three handlers; they are proved equal to the handlers below.
\<close>

definition reply_to_caller ::
  "string \<Rightarrow> ((fault + int) \<times> cbuf \<times> sys) option \<Rightarrow> ((fault + afb_reply) \<times> sys) option" where
  "reply_to_caller verb res =
     (case res of
        None \<Rightarrow> None
      | Some (Inl f, reply, s') \<Rightarrow> Some (Inl f, s')
      | Some (Inr rc, reply, s') \<Rightarrow>
          if rc < 0 then
            Some (Inr (Req_fail ''failed'' ''media-session communication failed''), s')
          else
            (case c_str reply of
               Inl f \<Rightarrow> Some (Inl f, s')
             | Inr str \<Rightarrow>
                 (case atoi str of
                    Inl f \<Rightarrow> Some (Inl f, s')
                  | Inr n \<Rightarrow>
                      if n < 0 then
                        Some (Inr (Req_fail ''failed'' ''media-session replied -1''), s')
                      else Some (Inr (Req_success [(verb, n)]), s'))))"

definition get_or_set :: "string \<Rightarrow> int \<Rightarrow> string \<Rightarrow> handler" where
  "get_or_set verb hi invalid request s =
     (let role = afb_req_value request ''role'';
          value = afb_req_value request ''value''
      in case (case value of None \<Rightarrow> Inr (-1) | Some v \<Rightarrow> atoi v) of
           Inl f \<Rightarrow> Some (Inl f, s)
         | Inr n \<Rightarrow>
             if value \<noteq> None \<and> (n < 0 \<or> n > hi) then
               Some (Inr (Req_fail ''failed'' invalid), s)
             else
               (case fmt_s role of
                  Inl f \<Rightarrow> Some (Inl f, s)
                | Inr role_s \<Rightarrow>
                    (case snprintf 100 (verb @ '' '' @ role_s @ '' '' @ fmt_d n) of
                       (command, _) \<Rightarrow>
                         reply_to_caller verb
                           (session_comm command (replicate 10 None) 10 s))))"

text \<open>
  The scenario of the specification: runtime directory \<^verbatim>\<open>/run/user/1000\<close>, descriptor 3,
  a daemon that accepts the connection. The first \<open>kw\<close> calls of \<^verbatim>\<open>write\<close> and the first
  \<open>kr\<close> calls of \<^verbatim>\<open>read\<close> are interrupted; the calls after them meet \<open>wa\<close> and \<open>ra\<close>.
\<close>

definition fake_daemon :: "nat \<Rightarrow> nat answer \<Rightarrow> nat \<Rightarrow> string answer \<Rightarrow> sys" where
  "fake_daemon kw wa kr ra =
     \<lparr>environ = [(''XDG_RUNTIME_DIR'', ''/run/user/1000'')],
      socket_ret = 3,
      connect_ret = 0,
      write_ans = (\<lambda>k. if k < kw then Err EINTR else wa),
      read_ans = (\<lambda>k. if k < kr then Err EAGAIN else ra),
      n_write = 0,
      n_read = 0,
      errno = 0,
      trace = []\<rparr>"

text \<open>The observable part of a result: the value, the reply array, the trace.\<close>

definition outcome ::
  "((fault + int) \<times> cbuf \<times> sys) option \<Rightarrow> ((fault + int) \<times> cbuf \<times> event list) option" where
  "outcome res = map_option (\<lambda>(v, reply, s'). (v, reply, trace s')) res"

definition seen ::
  "((fault + afb_reply) \<times> sys) option \<Rightarrow> ((fault + afb_reply) \<times> event list) option" where
  "seen res = map_option (\<lambda>(v, s'). (v, trace s')) res"

section \<open>The retry loops\<close>

lemma write_loop_again:
  assumes "write_ans s (n_write s) = Err e" and "e = EAGAIN \<or> e = EINTR"
  shows "write_loop fd cmd s =
    write_loop fd cmd (s\<lparr>n_write := Suc (n_write s), errno := e,
      trace := trace s @ [Write fd cmd (-1)]\<rparr>)"
  using assms by (subst write_loop.simps) (auto simp: sys_write_def log_def)

lemma write_loop_fatal:
  assumes "write_ans s (n_write s) = Err e" and "e \<noteq> EAGAIN" and "e \<noteq> EINTR"
  shows "write_loop fd cmd s =
    Some (0, s\<lparr>n_write := Suc (n_write s), errno := e,
      trace := trace s @ [Write fd cmd (-1), Perror ''write'']\<rparr>)"
  using assms by (subst write_loop.simps) (simp add: sys_write_def log_def)

lemma write_loop_done:
  assumes "write_ans s (n_write s) = Ok n"
  shows "write_loop fd cmd s =
    Some (int (min n (length cmd)), s\<lparr>n_write := Suc (n_write s),
      trace := trace s @ [Write fd cmd (int (min n (length cmd)))]\<rparr>)"
  using assms by (subst write_loop.simps) (simp add: sys_write_def log_def Let_def)

lemma write_loop_skip:
  "retried (write_ans s) (n_write s) k \<Longrightarrow>
   \<exists>e'. write_loop fd cmd s =
     write_loop fd cmd (s\<lparr>n_write := n_write s + k, errno := e',
       trace := trace s @ replicate k (Write fd cmd (-1))\<rparr>)"
proof (induction k arbitrary: s)
  case 0
  have "s\<lparr>n_write := n_write s + 0, errno := errno s, trace := trace s @ replicate 0 (Write fd cmd (-1))\<rparr> = s"
    by simp
  then show ?case by metis
next
  case (Suc k)
  from Suc.prems obtain e where e: "write_ans s (n_write s) = Err e" "e = EAGAIN \<or> e = EINTR"
    and rest: "retried (write_ans s) (Suc (n_write s)) k"
    by (auto split: answer.splits)
  let ?s1 = "s\<lparr>n_write := Suc (n_write s), errno := e, trace := trace s @ [Write fd cmd (-1)]\<rparr>"
  from rest have "retried (write_ans ?s1) (n_write ?s1) k" by simp
  from Suc.IH [OF this] obtain e' where
    "write_loop fd cmd ?s1 = write_loop fd cmd (?s1\<lparr>n_write := n_write ?s1 + k, errno := e',
       trace := trace ?s1 @ replicate k (Write fd cmd (-1))\<rparr>)" by blast
  then have "write_loop fd cmd s = write_loop fd cmd (s\<lparr>n_write := n_write s + Suc k, errno := e',
       trace := trace s @ replicate (Suc k) (Write fd cmd (-1))\<rparr>)"
    using write_loop_again [OF e, of fd cmd] by (simp add: replicate_app_Cons_same)
  then show ?case by blast
qed


lemma read_loop_again:
  assumes "read_ans s (n_read s) = Err e" and "e = EAGAIN \<or> e = EINTR"
  shows "read_loop fd buf rs s =
    read_loop fd buf rs (s\<lparr>n_read := Suc (n_read s), errno := e,
      trace := trace s @ [Read fd rs (-1)]\<rparr>)"
  using assms by (subst read_loop.simps) (auto simp: sys_read_def log_def)

lemma read_loop_fatal:
  assumes "read_ans s (n_read s) = Err e" and "e \<noteq> EAGAIN" and "e \<noteq> EINTR"
  shows "read_loop fd buf rs s =
    Some (Inr (0, buf, s\<lparr>n_read := Suc (n_read s), errno := e,
      trace := trace s @ [Read fd rs (-1), Perror ''read'']\<rparr>))"
  using assms by (subst read_loop.simps) (simp add: sys_read_def log_def)

lemma read_loop_done:
  assumes "read_ans s (n_read s) = Ok bs" and "length (take rs bs) \<le> length buf"
  shows "read_loop fd buf rs s =
    Some (Inr (int (length (take rs bs)), map Some (take rs bs) @ drop (length (take rs bs)) buf,
      s\<lparr>n_read := Suc (n_read s),
        trace := trace s @ [Read fd rs (int (length (take rs bs)))]\<rparr>))"
  using assms
  by (subst read_loop.simps) (simp add: sys_read_def store_bytes_def log_def Let_def)

lemma read_loop_overrun:
  assumes "read_ans s (n_read s) = Ok bs" and "length buf < length (take rs bs)"
  shows "read_loop fd buf rs s = Some (Inl (Out_of_bounds (length buf)))"
  using assms
  by (subst read_loop.simps) (auto simp: sys_read_def store_bytes_def)

lemma read_loop_skip:
  "retried (read_ans s) (n_read s) k \<Longrightarrow>
   \<exists>e'. read_loop fd buf rs s =
     read_loop fd buf rs (s\<lparr>n_read := n_read s + k, errno := e',
       trace := trace s @ replicate k (Read fd rs (-1))\<rparr>)"
proof (induction k arbitrary: s)
  case 0
  have "s\<lparr>n_read := n_read s + 0, errno := errno s,
    trace := trace s @ replicate 0 (Read fd rs (-1))\<rparr> = s"
    by simp
  then show ?case by metis
next
  case (Suc k)
  from Suc.prems obtain e where e: "read_ans s (n_read s) = Err e" "e = EAGAIN \<or> e = EINTR"
    and rest: "retried (read_ans s) (Suc (n_read s)) k"
    by (auto split: answer.splits)
  let ?s1 = "s\<lparr>n_read := Suc (n_read s), errno := e, trace := trace s @ [Read fd rs (-1)]\<rparr>"
  from rest have "retried (read_ans ?s1) (n_read ?s1) k" by simp
  from Suc.IH [OF this] obtain e' where
    "read_loop fd buf rs ?s1 = read_loop fd buf rs (?s1\<lparr>n_read := n_read ?s1 + k, errno := e',
       trace := trace ?s1 @ replicate k (Read fd rs (-1))\<rparr>)" by blast
  then have "read_loop fd buf rs s = read_loop fd buf rs (s\<lparr>n_read := n_read s + Suc k,
       errno := e', trace := trace s @ replicate (Suc k) (Read fd rs (-1))\<rparr>)"
    using read_loop_again [OF e, of fd buf rs] by (simp add: replicate_app_Cons_same)
  then show ?case by blast
qed

section \<open>The paths through \<open>session_comm\<close>\<close>

lemma session_comm_no_env:
  assumes "getenv ''XDG_RUNTIME_DIR'' s = None"
  shows "session_comm cmd reply rs s = Some (Inr (-1), reply,
    s\<lparr>trace := trace s @
      [Stderr ''connect failed: XDG_RUNTIME_DIR not set in the environment'']\<rparr>)"
  using assms by (simp add: session_comm_def getenv_def log_def)

lemma session_comm_no_socket:
  assumes "getenv ''XDG_RUNTIME_DIR'' s = Some dir" and "socket_ret s < 0"
  shows "session_comm cmd reply rs s = Some (Inr (-1), reply,
    s\<lparr>trace := trace s @ [Socket (socket_ret s), Perror ''socket'']\<rparr>)"
  using assms by (simp add: session_comm_def getenv_def sys_socket_def log_def)

lemma session_comm_too_long:
  assumes "getenv ''XDG_RUNTIME_DIR'' s = Some dir" and "0 \<le> socket_ret s"
    and "108 < length (dir @ ''/'' @ NAME) + 1"
  shows "session_comm cmd reply rs s = Some (Inr (-1), reply,
    s\<lparr>trace := trace s @ [Socket (socket_ret s),
      Stderr (''socket path '' @ [CHR 0x22] @ dir @ ''/'' @ NAME @ [CHR 0x22]
        @ '' plus null terminator exceeds 108 bytes''),
      Close (socket_ret s)]\<rparr>)"
  using assms
  by (simp add: session_comm_def getenv_def sys_socket_def snprintf_def sys_close_def log_def)

lemma session_comm_no_connect:
  assumes "getenv ''XDG_RUNTIME_DIR'' s = Some dir" and "0 \<le> socket_ret s"
    and "length (dir @ ''/'' @ NAME) + 1 \<le> 108" and "connect_ret s < 0"
  shows "session_comm cmd reply rs s = Some (Inr (-1), reply,
    s\<lparr>trace := trace s @ [Socket (socket_ret s),
      Connect (socket_ret s) (dir @ ''/'' @ NAME) (connect_ret s), Perror ''connect'',
      Close (socket_ret s)]\<rparr>)"
  using assms
  by (simp add: session_comm_def getenv_def sys_socket_def snprintf_def sys_connect_def
      sys_close_def log_def)

lemma session_comm_connected:
  assumes "connected s"
  shows "session_comm cmd reply rs s =
    (case write_loop (socket_ret s) cmd (s\<lparr>trace := trace s @ setup_events s\<rparr>) of
       None \<Rightarrow> None
     | Some (r, s3) \<Rightarrow>
         if r = 0 then
           Some (Inr (-1), reply,
             s3\<lparr>trace := trace s3 @ [Stderr ''Nothing was written'', Close (socket_ret s)]\<rparr>)
         else
           (case read_loop (socket_ret s) reply rs s3 of
              None \<Rightarrow> None
            | Some (Inl f) \<Rightarrow> Some (Inl f, reply, s3)
            | Some (Inr (r, reply1, s4)) \<Rightarrow>
                if r = 0 then
                  Some (Inr (-1), reply1,
                    s4\<lparr>trace := trace s4 @ [Stderr ''EOF'', Close (socket_ret s)]\<rparr>)
                else
                  (case store reply1 (nat r) (CHR 0x00) of
                     Inl f \<Rightarrow> Some (Inl f, reply1, s4)
                   | Inr reply2 \<Rightarrow>
                       Some (Inr 0, reply2,
                         s4\<lparr>trace := trace s4 @ [Close (socket_ret s)]\<rparr>))))"
  using assms
  by (simp add: connected_def setup_events_def session_comm_def getenv_def sys_socket_def
      snprintf_def sys_connect_def sys_close_def log_def
      split: option.splits prod.splits sum.splits)

lemma written_loop:
  assumes "written cmd k s"
  shows "\<exists>e'. write_loop (socket_ret s) cmd (s\<lparr>trace := tr\<rparr>) =
    Some (case write_ans s (n_write s + k) of Err e \<Rightarrow> -1 | Ok n \<Rightarrow> int (min n (length cmd)),
      s\<lparr>n_write := Suc (n_write s + k), errno := e',
        trace := tr @ write_events cmd k s\<rparr>)"
proof -
  let ?s0 = "s\<lparr>trace := tr\<rparr>"
  from assms obtain n where r: "retried (write_ans ?s0) (n_write ?s0) k"
    and n: "write_ans s (n_write s + k) = Ok n" "0 < min n (length cmd)"
    by (auto simp: written_def split: answer.splits)
  from write_loop_skip [OF r] obtain e' where
    "write_loop (socket_ret s) cmd ?s0 = write_loop (socket_ret s) cmd
       (?s0\<lparr>n_write := n_write ?s0 + k, errno := e',
         trace := trace ?s0 @ replicate k (Write (socket_ret s) cmd (-1))\<rparr>)" by blast
  then have "write_loop (socket_ret s) cmd ?s0 =
    Some (case write_ans s (n_write s + k) of Err e \<Rightarrow> -1 | Ok n \<Rightarrow> int (min n (length cmd)),
      s\<lparr>n_write := Suc (n_write s + k), errno := e',
        trace := tr @ write_events cmd k s\<rparr>)"
    using n by (subst (asm) (2) write_loop_done [where n = n]) (simp_all add: write_events_def)
  then show ?thesis by (rule exI)
qed


lemma write_fatal_loop:
  assumes "retried (write_ans s) (n_write s) k" and "fatal_error (write_ans s (n_write s + k))"
  shows "\<exists>e'. write_loop (socket_ret s) cmd (s\<lparr>trace := tr\<rparr>) =
    Some (0, s\<lparr>n_write := Suc (n_write s + k), errno := e',
        trace := tr @ write_events cmd k s @ [Perror ''write'']\<rparr>)"
proof -
  let ?s0 = "s\<lparr>trace := tr\<rparr>"
  from assms obtain e where r: "retried (write_ans ?s0) (n_write ?s0) k"
    and e: "write_ans s (n_write s + k) = Err e" "e \<noteq> EAGAIN" "e \<noteq> EINTR"
    by (auto simp: fatal_error_def split: answer.splits)
  from write_loop_skip [OF r] obtain e' where
    "write_loop (socket_ret s) cmd ?s0 = write_loop (socket_ret s) cmd
       (?s0\<lparr>n_write := n_write ?s0 + k, errno := e',
         trace := trace ?s0 @ replicate k (Write (socket_ret s) cmd (-1))\<rparr>)" by blast
  then have "write_loop (socket_ret s) cmd ?s0 =
    Some (0, s\<lparr>n_write := Suc (n_write s + k), errno := e,
        trace := tr @ write_events cmd k s @ [Perror ''write'']\<rparr>)"
    using e by (subst (asm) (2) write_loop_fatal [where e = e]) (simp_all add: write_events_def)
  then show ?thesis by (rule exI)
qed

lemma write_nothing_loop:
  assumes "retried (write_ans s) (n_write s) k" and "write_ans s (n_write s + k) = Ok n"
    and "min n (length cmd) = 0"
  shows "\<exists>e'. write_loop (socket_ret s) cmd (s\<lparr>trace := tr\<rparr>) =
    Some (0, s\<lparr>n_write := Suc (n_write s + k), errno := e',
        trace := tr @ write_events cmd k s\<rparr>)"
proof -
  let ?s0 = "s\<lparr>trace := tr\<rparr>"
  from assms have r: "retried (write_ans ?s0) (n_write ?s0) k" by simp
  from write_loop_skip [OF r] obtain e' where
    "write_loop (socket_ret s) cmd ?s0 = write_loop (socket_ret s) cmd
       (?s0\<lparr>n_write := n_write ?s0 + k, errno := e',
         trace := trace ?s0 @ replicate k (Write (socket_ret s) cmd (-1))\<rparr>)" by blast
  then have "write_loop (socket_ret s) cmd ?s0 =
    Some (0, s\<lparr>n_write := Suc (n_write s + k), errno := e',
        trace := tr @ write_events cmd k s\<rparr>)"
    using assms(2,3)
    by (subst (asm) (2) write_loop_done [where n = n]) (simp_all add: write_events_def)
  then show ?thesis by (rule exI)
qed

lemma read_fatal_loop:
  assumes "retried (read_ans s) (n_read s) k" and "fatal_error (read_ans s (n_read s + k))"
  shows "\<exists>e'. read_loop (socket_ret s) buf rs (s\<lparr>n_write := a, errno := b, trace := tr\<rparr>) =
    Some (Inr (0, buf, s\<lparr>n_write := a, n_read := Suc (n_read s + k), errno := e',
        trace := tr @ read_events rs k s @ [Perror ''read'']\<rparr>))"
proof -
  let ?s0 = "s\<lparr>n_write := a, errno := b, trace := tr\<rparr>"
  from assms obtain e where r: "retried (read_ans ?s0) (n_read ?s0) k"
    and e: "read_ans s (n_read s + k) = Err e" "e \<noteq> EAGAIN" "e \<noteq> EINTR"
    by (auto simp: fatal_error_def split: answer.splits)
  from read_loop_skip [OF r] obtain e' where
    "read_loop (socket_ret s) buf rs ?s0 = read_loop (socket_ret s) buf rs
       (?s0\<lparr>n_read := n_read ?s0 + k, errno := e',
         trace := trace ?s0 @ replicate k (Read (socket_ret s) rs (-1))\<rparr>)" by blast
  then have "read_loop (socket_ret s) buf rs ?s0 =
    Some (Inr (0, buf, s\<lparr>n_write := a, n_read := Suc (n_read s + k), errno := e,
        trace := tr @ read_events rs k s @ [Perror ''read'']\<rparr>))"
    using e by (subst (asm) (2) read_loop_fatal [where e = e]) (simp_all add: read_events_def)
  then show ?thesis by (rule exI)
qed

lemma read_data_loop:
  assumes "retried (read_ans s) (n_read s) k" and "read_ans s (n_read s + k) = Ok bs"
    and "length (take rs bs) \<le> length buf"
  shows "\<exists>e'. read_loop (socket_ret s) buf rs (s\<lparr>n_write := a, errno := b, trace := tr\<rparr>) =
    Some (Inr (int (length (take rs bs)),
      map Some (take rs bs) @ drop (length (take rs bs)) buf,
      s\<lparr>n_write := a, n_read := Suc (n_read s + k), errno := e',
        trace := tr @ read_events rs k s\<rparr>))"
proof -
  let ?s0 = "s\<lparr>n_write := a, errno := b, trace := tr\<rparr>"
  from assms have r: "retried (read_ans ?s0) (n_read ?s0) k" by simp
  from read_loop_skip [OF r] obtain e' where
    "read_loop (socket_ret s) buf rs ?s0 = read_loop (socket_ret s) buf rs
       (?s0\<lparr>n_read := n_read ?s0 + k, errno := e',
         trace := trace ?s0 @ replicate k (Read (socket_ret s) rs (-1))\<rparr>)" by blast
  then have "read_loop (socket_ret s) buf rs ?s0 =
    Some (Inr (int (length (take rs bs)),
      map Some (take rs bs) @ drop (length (take rs bs)) buf,
      s\<lparr>n_write := a, n_read := Suc (n_read s + k), errno := e',
        trace := tr @ read_events rs k s\<rparr>))"
    using assms(2,3)
    by (subst (asm) (2) read_loop_done [where bs = bs]) (simp_all add: read_events_def)
  then show ?thesis by (rule exI)
qed

lemma read_overrun_loop:
  assumes "retried (read_ans s) (n_read s) k" and "read_ans s (n_read s + k) = Ok bs"
    and "length buf < length (take rs bs)"
  shows "read_loop (socket_ret s) buf rs (s\<lparr>n_write := a, errno := b, trace := tr\<rparr>) =
    Some (Inl (Out_of_bounds (length buf)))"
proof -
  let ?s0 = "s\<lparr>n_write := a, errno := b, trace := tr\<rparr>"
  from assms have r: "retried (read_ans ?s0) (n_read ?s0) k" by simp
  from read_loop_skip [OF r] obtain e' where
    "read_loop (socket_ret s) buf rs ?s0 = read_loop (socket_ret s) buf rs
       (?s0\<lparr>n_read := n_read ?s0 + k, errno := e',
         trace := trace ?s0 @ replicate k (Read (socket_ret s) rs (-1))\<rparr>)" by blast
  then show ?thesis
    using assms(2,3)
    by (subst (asm) (2) read_loop_overrun [where bs = bs]) simp_all
qed


lemma session_write_failed:
  assumes "connected s" and "retried (write_ans s) (n_write s) k"
    and "fatal_error (write_ans s (n_write s + k))"
  shows "\<exists>s'. session_comm cmd reply rs s = Some (Inr (-1), reply, s') \<and>
    trace s' = trace s @ setup_events s @ write_events cmd k s @
      [Perror ''write'', Stderr ''Nothing was written'', Close (socket_ret s)]"
proof -
  from write_fatal_loop [OF assms(2,3)] obtain e' where
    "write_loop (socket_ret s) cmd (s\<lparr>trace := trace s @ setup_events s\<rparr>) =
      Some (0, s\<lparr>n_write := Suc (n_write s + k), errno := e',
        trace := (trace s @ setup_events s) @ write_events cmd k s @ [Perror ''write'']\<rparr>)"
    by blast
  then show ?thesis
    by (simp add: session_comm_connected [OF assms(1)])
qed

lemma session_write_nothing:
  assumes "connected s" and "retried (write_ans s) (n_write s) k"
    and "write_ans s (n_write s + k) = Ok n" and "min n (length cmd) = 0"
  shows "\<exists>s'. session_comm cmd reply rs s = Some (Inr (-1), reply, s') \<and>
    trace s' = trace s @ setup_events s @ write_events cmd k s @
      [Stderr ''Nothing was written'', Close (socket_ret s)]"
proof -
  from write_nothing_loop [OF assms(2,3,4)] obtain e' where
    "write_loop (socket_ret s) cmd (s\<lparr>trace := trace s @ setup_events s\<rparr>) =
      Some (0, s\<lparr>n_write := Suc (n_write s + k), errno := e',
        trace := (trace s @ setup_events s) @ write_events cmd k s\<rparr>)"
    by blast
  then show ?thesis
    by (simp add: session_comm_connected [OF assms(1)])
qed

lemma session_written:
  assumes "connected s" and "written cmd k s"
  shows "\<exists>e'. session_comm cmd reply rs s =
    (case read_loop (socket_ret s) reply rs (s\<lparr>n_write := Suc (n_write s + k), errno := e',
        trace := trace s @ setup_events s @ write_events cmd k s\<rparr>) of
       None \<Rightarrow> None
     | Some (Inl f) \<Rightarrow> Some (Inl f, reply, s\<lparr>n_write := Suc (n_write s + k), errno := e',
        trace := trace s @ setup_events s @ write_events cmd k s\<rparr>)
     | Some (Inr (r, reply1, s4)) \<Rightarrow>
         if r = 0 then
           Some (Inr (-1), reply1,
             s4\<lparr>trace := trace s4 @ [Stderr ''EOF'', Close (socket_ret s)]\<rparr>)
         else
           (case store reply1 (nat r) (CHR 0x00) of
              Inl f \<Rightarrow> Some (Inl f, reply1, s4)
            | Inr reply2 \<Rightarrow>
                Some (Inr 0, reply2, s4\<lparr>trace := trace s4 @ [Close (socket_ret s)]\<rparr>)))"
proof -
  from assms(2) have nz: "(case write_ans s (n_write s + k) of Err e \<Rightarrow> -1
    | Ok n \<Rightarrow> int (min n (length cmd))) \<noteq> 0"
    by (auto simp: written_def split: answer.splits)
  from written_loop [OF assms(2)] obtain e' where
    "write_loop (socket_ret s) cmd (s\<lparr>trace := trace s @ setup_events s\<rparr>) =
      Some (case write_ans s (n_write s + k) of Err e \<Rightarrow> -1
        | Ok n \<Rightarrow> int (min n (length cmd)),
        s\<lparr>n_write := Suc (n_write s + k), errno := e',
          trace := (trace s @ setup_events s) @ write_events cmd k s\<rparr>)"
    by blast
  with nz have "session_comm cmd reply rs s =
    (case read_loop (socket_ret s) reply rs (s\<lparr>n_write := Suc (n_write s + k), errno := e',
        trace := trace s @ setup_events s @ write_events cmd k s\<rparr>) of
       None \<Rightarrow> None
     | Some (Inl f) \<Rightarrow> Some (Inl f, reply, s\<lparr>n_write := Suc (n_write s + k), errno := e',
        trace := trace s @ setup_events s @ write_events cmd k s\<rparr>)
     | Some (Inr (r, reply1, s4)) \<Rightarrow>
         if r = 0 then
           Some (Inr (-1), reply1,
             s4\<lparr>trace := trace s4 @ [Stderr ''EOF'', Close (socket_ret s)]\<rparr>)
         else
           (case store reply1 (nat r) (CHR 0x00) of
              Inl f \<Rightarrow> Some (Inl f, reply1, s4)
            | Inr reply2 \<Rightarrow>
                Some (Inr 0, reply2, s4\<lparr>trace := trace s4 @ [Close (socket_ret s)]\<rparr>)))"
    by (simp add: session_comm_connected [OF assms(1)])
  then show ?thesis by (rule exI)
qed

lemma session_read_failed:
  assumes "connected s" and "written cmd kw s" and "retried (read_ans s) (n_read s) kr"
    and "fatal_error (read_ans s (n_read s + kr))"
  shows "\<exists>s'. session_comm cmd reply rs s = Some (Inr (-1), reply, s') \<and>
    trace s' = trace s @ setup_events s @ write_events cmd kw s @ read_events rs kr s @
      [Perror ''read'', Stderr ''EOF'', Close (socket_ret s)]"
proof -
  from session_written [OF assms(1,2)] obtain e1 where
    sc: "session_comm cmd reply rs s =
    (case read_loop (socket_ret s) reply rs (s\<lparr>n_write := Suc (n_write s + kw), errno := e1,
        trace := trace s @ setup_events s @ write_events cmd kw s\<rparr>) of
       None \<Rightarrow> None
     | Some (Inl f) \<Rightarrow> Some (Inl f, reply, s\<lparr>n_write := Suc (n_write s + kw), errno := e1,
        trace := trace s @ setup_events s @ write_events cmd kw s\<rparr>)
     | Some (Inr (r, reply1, s4)) \<Rightarrow>
         if r = 0 then
           Some (Inr (-1), reply1,
             s4\<lparr>trace := trace s4 @ [Stderr ''EOF'', Close (socket_ret s)]\<rparr>)
         else
           (case store reply1 (nat r) (CHR 0x00) of
              Inl f \<Rightarrow> Some (Inl f, reply1, s4)
            | Inr reply2 \<Rightarrow>
                Some (Inr 0, reply2, s4\<lparr>trace := trace s4 @ [Close (socket_ret s)]\<rparr>)))"
    by blast
  from read_fatal_loop [OF assms(3,4)] obtain e2 where
    "read_loop (socket_ret s) reply rs (s\<lparr>n_write := Suc (n_write s + kw), errno := e1,
        trace := trace s @ setup_events s @ write_events cmd kw s\<rparr>) =
     Some (Inr (0, reply, s\<lparr>n_write := Suc (n_write s + kw), n_read := Suc (n_read s + kr),
        errno := e2, trace := (trace s @ setup_events s @ write_events cmd kw s) @
          read_events rs kr s @ [Perror ''read'']\<rparr>))"
    by blast
  then show ?thesis
    by (simp add: sc)
qed


lemma session_read_eof:
  assumes "connected s" and "written cmd kw s" and "retried (read_ans s) (n_read s) kr"
    and "read_ans s (n_read s + kr) = Ok bs" and "take rs bs = []"
  shows "\<exists>s'. session_comm cmd reply rs s = Some (Inr (-1), reply, s') \<and>
    trace s' = trace s @ setup_events s @ write_events cmd kw s @ read_events rs kr s @
      [Stderr ''EOF'', Close (socket_ret s)]"
proof -
  from session_written [OF assms(1,2)] obtain e1 where
    sc: "session_comm cmd reply rs s =
    (case read_loop (socket_ret s) reply rs (s\<lparr>n_write := Suc (n_write s + kw), errno := e1,
        trace := trace s @ setup_events s @ write_events cmd kw s\<rparr>) of
       None \<Rightarrow> None
     | Some (Inl f) \<Rightarrow> Some (Inl f, reply, s\<lparr>n_write := Suc (n_write s + kw), errno := e1,
        trace := trace s @ setup_events s @ write_events cmd kw s\<rparr>)
     | Some (Inr (r, reply1, s4)) \<Rightarrow>
         if r = 0 then
           Some (Inr (-1), reply1,
             s4\<lparr>trace := trace s4 @ [Stderr ''EOF'', Close (socket_ret s)]\<rparr>)
         else
           (case store reply1 (nat r) (CHR 0x00) of
              Inl f \<Rightarrow> Some (Inl f, reply1, s4)
            | Inr reply2 \<Rightarrow>
                Some (Inr 0, reply2, s4\<lparr>trace := trace s4 @ [Close (socket_ret s)]\<rparr>)))"
    by blast
  from assms(5) have len: "length (take rs bs) \<le> length reply"
    by (simp only: list.size)
  from read_data_loop [OF assms(3,4) len] obtain e2 where
    "read_loop (socket_ret s) reply rs (s\<lparr>n_write := Suc (n_write s + kw), errno := e1,
        trace := trace s @ setup_events s @ write_events cmd kw s\<rparr>) =
     Some (Inr (int (length (take rs bs)),
       map Some (take rs bs) @ drop (length (take rs bs)) reply,
       s\<lparr>n_write := Suc (n_write s + kw), n_read := Suc (n_read s + kr),
        errno := e2, trace := (trace s @ setup_events s @ write_events cmd kw s) @
          read_events rs kr s\<rparr>))"
    by blast
  then show ?thesis
    using assms(5) by (simp add: sc)
qed

lemma session_success:
  assumes "connected s" and "written cmd kw s" and "retried (read_ans s) (n_read s) kr"
    and "read_ans s (n_read s + kr) = Ok bs" and "take rs bs \<noteq> []"
    and "length (take rs bs) < length reply"
  shows "\<exists>s'. session_comm cmd reply rs s =
      Some (Inr 0, map Some (take rs bs) @ Some (CHR 0x00) # drop (Suc (length (take rs bs))) reply,
        s') \<and>
    trace s' = trace s @ setup_events s @ write_events cmd kw s @ read_events rs kr s @
      [Close (socket_ret s)]"
proof -
  from session_written [OF assms(1,2)] obtain e1 where
    sc: "session_comm cmd reply rs s =
    (case read_loop (socket_ret s) reply rs (s\<lparr>n_write := Suc (n_write s + kw), errno := e1,
        trace := trace s @ setup_events s @ write_events cmd kw s\<rparr>) of
       None \<Rightarrow> None
     | Some (Inl f) \<Rightarrow> Some (Inl f, reply, s\<lparr>n_write := Suc (n_write s + kw), errno := e1,
        trace := trace s @ setup_events s @ write_events cmd kw s\<rparr>)
     | Some (Inr (r, reply1, s4)) \<Rightarrow>
         if r = 0 then
           Some (Inr (-1), reply1,
             s4\<lparr>trace := trace s4 @ [Stderr ''EOF'', Close (socket_ret s)]\<rparr>)
         else
           (case store reply1 (nat r) (CHR 0x00) of
              Inl f \<Rightarrow> Some (Inl f, reply1, s4)
            | Inr reply2 \<Rightarrow>
                Some (Inr 0, reply2, s4\<lparr>trace := trace s4 @ [Close (socket_ret s)]\<rparr>)))"
    by blast
  from assms(6) have len: "length (take rs bs) \<le> length reply" by simp
  from read_data_loop [OF assms(3,4) len] obtain e2 where
    "read_loop (socket_ret s) reply rs (s\<lparr>n_write := Suc (n_write s + kw), errno := e1,
        trace := trace s @ setup_events s @ write_events cmd kw s\<rparr>) =
     Some (Inr (int (length (take rs bs)),
       map Some (take rs bs) @ drop (length (take rs bs)) reply,
       s\<lparr>n_write := Suc (n_write s + kw), n_read := Suc (n_read s + kr),
        errno := e2, trace := (trace s @ setup_events s @ write_events cmd kw s) @
          read_events rs kr s\<rparr>))"
    by blast
  moreover have "(map Some (take rs bs) @ drop (length (take rs bs)) reply)
      [length (take rs bs) := Some (CHR 0x00)] =
    map Some (take rs bs) @ Some (CHR 0x00) # drop (Suc (length (take rs bs))) reply"
    using assms(6) by (simp add: list_update_append upd_conv_take_nth_drop drop_Suc [symmetric] del: length_take)
  ultimately show ?thesis
    using assms(5,6) by (simp add: sc store_def del: length_take)
qed

lemma session_overflow:
  assumes "connected s" and "written cmd kw s" and "retried (read_ans s) (n_read s) kr"
    and "read_ans s (n_read s + kr) = Ok bs" and "take rs bs \<noteq> []"
    and "length (take rs bs) = length reply"
  shows "\<exists>s'. session_comm cmd reply rs s =
      Some (Inl (Out_of_bounds (length reply)), map Some (take rs bs), s') \<and>
    trace s' = trace s @ setup_events s @ write_events cmd kw s @ read_events rs kr s"
proof -
  from session_written [OF assms(1,2)] obtain e1 where
    sc: "session_comm cmd reply rs s =
    (case read_loop (socket_ret s) reply rs (s\<lparr>n_write := Suc (n_write s + kw), errno := e1,
        trace := trace s @ setup_events s @ write_events cmd kw s\<rparr>) of
       None \<Rightarrow> None
     | Some (Inl f) \<Rightarrow> Some (Inl f, reply, s\<lparr>n_write := Suc (n_write s + kw), errno := e1,
        trace := trace s @ setup_events s @ write_events cmd kw s\<rparr>)
     | Some (Inr (r, reply1, s4)) \<Rightarrow>
         if r = 0 then
           Some (Inr (-1), reply1,
             s4\<lparr>trace := trace s4 @ [Stderr ''EOF'', Close (socket_ret s)]\<rparr>)
         else
           (case store reply1 (nat r) (CHR 0x00) of
              Inl f \<Rightarrow> Some (Inl f, reply1, s4)
            | Inr reply2 \<Rightarrow>
                Some (Inr 0, reply2, s4\<lparr>trace := trace s4 @ [Close (socket_ret s)]\<rparr>)))"
    by blast
  from assms(6) have len: "length (take rs bs) \<le> length reply" by simp
  from read_data_loop [OF assms(3,4) len] obtain e2 where
    "read_loop (socket_ret s) reply rs (s\<lparr>n_write := Suc (n_write s + kw), errno := e1,
        trace := trace s @ setup_events s @ write_events cmd kw s\<rparr>) =
     Some (Inr (int (length (take rs bs)),
       map Some (take rs bs) @ drop (length (take rs bs)) reply,
       s\<lparr>n_write := Suc (n_write s + kw), n_read := Suc (n_read s + kr),
        errno := e2, trace := (trace s @ setup_events s @ write_events cmd kw s) @
          read_events rs kr s\<rparr>))"
    by blast
  moreover from assms(5,6) have "reply \<noteq> []"
    by (metis length_0_conv)
  ultimately show ?thesis
    using assms(5,6) by (simp add: sc store_def del: length_take)
qed

section \<open>What a call leaves in the trace\<close>

lemma write_loop_events:
  assumes "write_loop fd cmd s = Some y"
  shows "\<exists>evs. trace (snd y) = trace s @ evs \<and> list_all (inner_event cmd) evs"
  using assms
proof (induction fd cmd s y rule: write_loop.raw_induct [rotated 1, consumes 1])
  case (1 write_loop fd cmd s y)
  show ?case
  proof (cases "write_ans s (n_write s)")
    case (Err e)
    show ?thesis
    proof (cases "e = EAGAIN \<or> e = EINTR")
      case True
      let ?s1 = "s\<lparr>n_write := Suc (n_write s), errno := e,
        trace := trace s @ [Write fd cmd (-1)]\<rparr>"
      from True Err "1.hyps" have "write_loop fd cmd ?s1 = Some y"
        by (auto simp: sys_write_def log_def)
      from "1.IH" [OF this] obtain evs where
        "trace (snd y) = trace ?s1 @ evs" "list_all (inner_event cmd) evs" by blast
      then have "trace (snd y) = trace s @ (Write fd cmd (-1) # evs) \<and>
        list_all (inner_event cmd) (Write fd cmd (-1) # evs)" by simp
      then show ?thesis by blast
    next
      case False
      with Err "1.hyps" show ?thesis
        by (auto simp: sys_write_def log_def)
    qed
  next
    case (Ok n)
    with "1.hyps" show ?thesis
      by (auto simp: sys_write_def log_def Let_def)
  qed
qed

lemma read_loop_events:
  assumes "read_loop fd buf rs s = Some y"
  shows "case y of Inl f \<Rightarrow> True
    | Inr (r, buf', s') \<Rightarrow> \<exists>evs. trace s' = trace s @ evs \<and> list_all read_event evs"
  using assms
proof (induction fd buf rs s y rule: read_loop.raw_induct [rotated 1, consumes 1])
  case (1 read_loop fd buf rs s y)
  show ?case
  proof (cases "read_ans s (n_read s)")
    case (Err e)
    show ?thesis
    proof (cases "e = EAGAIN \<or> e = EINTR")
      case True
      let ?s1 = "s\<lparr>n_read := Suc (n_read s), errno := e,
        trace := trace s @ [Read fd rs (-1)]\<rparr>"
      from True Err "1.hyps" have "read_loop fd buf rs ?s1 = Some y"
        by (auto simp: sys_read_def log_def)
      from "1.IH" [OF this] show ?thesis
      proof (cases y)
        case (Inl f)
        then show ?thesis by simp
      next
        case (Inr t)
        obtain r buf' s' where t: "t = (r, buf', s')" by (cases t)
        with Inr \<open>case y of Inl f \<Rightarrow> True | Inr (r, buf', s') \<Rightarrow>
          \<exists>evs. trace s' = trace ?s1 @ evs \<and> list_all read_event evs\<close>
        obtain evs where "trace s' = trace ?s1 @ evs" "list_all read_event evs"
          by auto
        then have "trace s' = trace s @ (Read fd rs (-1) # evs) \<and>
          list_all read_event (Read fd rs (-1) # evs)" by simp
        then show ?thesis using Inr t by auto
      qed
    next
      case False
      with Err "1.hyps" show ?thesis
        by (auto simp: sys_read_def log_def)
    qed
  next
    case (Ok bs)
    with "1.hyps" show ?thesis
      by (auto simp: sys_read_def log_def Let_def split: sum.splits)
  qed
qed

lemma read_event_inner:
  "list_all read_event evs \<Longrightarrow> list_all (inner_event cmd) evs"
proof (induction evs)
  case Nil
  then show ?case by simp
next
  case (Cons e evs)
  then show ?case by (cases e) simp_all
qed

lemma read_event_no_write:
  "list_all read_event evs \<Longrightarrow> filter is_write evs = []"
proof (induction evs)
  case Nil
  then show ?case by simp
next
  case (Cons e evs)
  then show ?case by (cases e) simp_all
qed

lemma session_comm_events:
  assumes "session_comm cmd reply rs s = Some (res, reply', s')"
  shows "\<exists>evs. trace s' = trace s @ evs \<and>
    (case res of
       Inl f \<Rightarrow> list_all (inner_event cmd) evs
     | Inr rv \<Rightarrow>
         if getenv ''XDG_RUNTIME_DIR'' s \<noteq> None \<and> 0 \<le> socket_ret s then
           \<exists>body. evs = body @ [Close (socket_ret s)] \<and> list_all (inner_event cmd) body
         else list_all (inner_event cmd) evs)"
proof (cases "getenv ''XDG_RUNTIME_DIR'' s")
  case None
  from assms None show ?thesis
    by (auto simp: session_comm_no_env [OF None])
next
  case (Some dir)
  show ?thesis
  proof (cases "socket_ret s < 0")
    case True
    from assms Some True show ?thesis
      by (auto simp: session_comm_no_socket [OF Some True])
  next
    case sock: False
    then have fd: "0 \<le> socket_ret s" by simp
    show ?thesis
    proof (cases "108 < length (dir @ ''/'' @ NAME) + 1")
      case True
      from assms Some fd show ?thesis
        by (auto simp: session_comm_too_long [OF Some fd True])
    next
      case False
      then have fits: "length (dir @ ''/'' @ NAME) + 1 \<le> 108" by simp
      show ?thesis
      proof (cases "connect_ret s < 0")
        case True
        from assms Some fd show ?thesis
          by (auto simp: session_comm_no_connect [OF Some fd fits True])
      next
        case False
        with Some fd fits have con: "connected s"
          by (simp add: connected_def)
        have ev: "list_all (inner_event cmd) (setup_events s)"
          by (simp add: setup_events_def Some)
        let ?s2 = "s\<lparr>trace := trace s @ setup_events s\<rparr>"
        from assms obtain r s3 where w: "write_loop (socket_ret s) cmd ?s2 = Some (r, s3)"
          by (auto simp: session_comm_connected [OF con] split: option.splits)
        from write_loop_events [OF w] obtain evs1 where
          e1: "trace s3 = trace s @ setup_events s @ evs1" "list_all (inner_event cmd) evs1"
          by auto
        show ?thesis
        proof (cases "r = 0")
          case True
          with assms w e1 ev Some fd show ?thesis
            by (auto simp: session_comm_connected [OF con])
        next
          case rnz: False
          from assms w rnz obtain y where
            rd: "read_loop (socket_ret s) reply rs s3 = Some y"
            by (auto simp: session_comm_connected [OF con] split: option.splits)
          show ?thesis
          proof (cases y)
            case (Inl f)
            with assms w rnz rd e1 ev show ?thesis
              by (auto simp: session_comm_connected [OF con])
          next
            case (Inr t)
            obtain r' reply1 s4 where t: "t = (r', reply1, s4)" by (cases t)
            from read_loop_events [OF rd] Inr t obtain evs2 where
              e2: "trace s4 = trace s3 @ evs2" "list_all read_event evs2"
              by auto
            note e2 = e2(1) read_event_inner [OF e2(2), of cmd]
            from assms w rnz rd Inr t e1 e2 ev Some fd show ?thesis
              by (auto simp: session_comm_connected [OF con] split: if_splits sum.splits)
          qed
        qed
      qed
    qed
  qed
qed

section \<open>The three handlers have one shape\<close>

lemma volume_get_or_set:
  "volume = get_or_set ''volume'' 100 ''Invalid volume value (must be between 0 and 100)''"
  by (intro ext)
    (simp add: volume_def get_or_set_def reply_to_caller_def Let_def
      cong: sum.case_cong option.case_cong prod.case_cong if_cong)

lemma mute_get_or_set:
  "mute = get_or_set ''mute'' 1 ''Invalid mute value (must be between 0 and 1)''"
  by (intro ext)
    (simp add: mute_def get_or_set_def reply_to_caller_def Let_def
      cong: sum.case_cong option.case_cong prod.case_cong if_cong)

lemma zone_get_or_set:
  "zone = get_or_set ''zone'' 4 ''Invalid mute value (must be between 0 and 4)''"
  by (intro ext)
    (simp add: zone_def get_or_set_def reply_to_caller_def Let_def
      cong: sum.case_cong option.case_cong prod.case_cong if_cong)

lemma in_handlers:
  assumes "(verb, h, hi, msg) \<in> set handlers"
  shows "h = get_or_set verb hi msg"
  using assms
  by (auto simp: handlers_def volume_get_or_set mute_get_or_set zone_get_or_set)

lemma get_or_set_invalid:
  assumes "map_of request ''value'' = Some v" and "atoi v = Inr n" and "n < 0 \<or> hi < n"
  shows "get_or_set verb hi msg request s = Some (Inr (Req_fail ''failed'' msg), s)"
  using assms by (auto simp: get_or_set_def afb_req_value_def)

lemma get_or_set_call:
  assumes "map_of request ''role'' = Some role"
    and "map_of request ''value'' = None \<and> v = -1 \<or>
      (\<exists>str. map_of request ''value'' = Some str \<and> atoi str = Inr v \<and> 0 \<le> v \<and> v \<le> hi)"
  shows "get_or_set verb hi msg request s =
    reply_to_caller verb
      (session_comm (take 99 (verb @ '' '' @ role @ '' '' @ fmt_d v)) (replicate 10 None) 10 s)"
  using assms
  by (auto simp: get_or_set_def afb_req_value_def fmt_s_def snprintf_def)


section \<open>Further facts about traces, \<open>atoi\<close> and the scenario\<close>

lemma list_all_inner_no_close:
  "list_all (inner_event cmd) evs \<Longrightarrow> filter is_close evs = []"
proof (induction evs)
  case Nil
  then show ?case by simp
next
  case (Cons e evs)
  then show ?case by (cases e) simp_all
qed

lemma list_all_inner_writes:
  "list_all (inner_event cmd) evs \<Longrightarrow> Write fd buf r \<in> set evs \<Longrightarrow> buf = cmd"
  by (induction evs) auto

lemma session_written_trace:
  assumes "connected s" and "written cmd k s"
    and "session_comm cmd reply rs s = Some (res, reply', s')"
  shows "\<exists>evs. trace s' = trace s @ setup_events s @ write_events cmd k s @ evs \<and>
    filter is_write evs = []"
proof -
  from session_written [OF assms(1,2), of reply rs] obtain e1 where
    sc: "session_comm cmd reply rs s =
    (case read_loop (socket_ret s) reply rs (s\<lparr>n_write := Suc (n_write s + k), errno := e1,
        trace := trace s @ setup_events s @ write_events cmd k s\<rparr>) of
       None \<Rightarrow> None
     | Some (Inl f) \<Rightarrow> Some (Inl f, reply, s\<lparr>n_write := Suc (n_write s + k), errno := e1,
        trace := trace s @ setup_events s @ write_events cmd k s\<rparr>)
     | Some (Inr (r, reply1, s4)) \<Rightarrow>
         if r = 0 then
           Some (Inr (-1), reply1,
             s4\<lparr>trace := trace s4 @ [Stderr ''EOF'', Close (socket_ret s)]\<rparr>)
         else
           (case store reply1 (nat r) (CHR 0x00) of
              Inl f \<Rightarrow> Some (Inl f, reply1, s4)
            | Inr reply2 \<Rightarrow>
                Some (Inr 0, reply2, s4\<lparr>trace := trace s4 @ [Close (socket_ret s)]\<rparr>)))"
    by blast
  let ?s3 = "s\<lparr>n_write := Suc (n_write s + k), errno := e1,
        trace := trace s @ setup_events s @ write_events cmd k s\<rparr>"
  from assms(3) sc obtain y where rd: "read_loop (socket_ret s) reply rs ?s3 = Some y"
    by (auto split: option.splits)
  show ?thesis
  proof (cases y)
    case (Inl f)
    with assms(3) sc rd show ?thesis by auto
  next
    case (Inr t)
    obtain r reply1 s4 where t: "t = (r, reply1, s4)" by (cases t)
    from read_loop_events [OF rd] Inr t obtain evs where
      e: "trace s4 = trace ?s3 @ evs" "list_all read_event evs"
      by auto
    from e(2) have "filter is_write evs = []" by (rule read_event_no_write)
    with assms(3) sc rd Inr t e(1) show ?thesis
      by (auto split: if_splits sum.splits)
  qed
qed

lemma session_connected_trace:
  assumes "connected s" and "session_comm cmd reply rs s = Some (res, reply', s')"
  shows "\<exists>evs. trace s' = trace s @ setup_events s @ evs"
proof -
  let ?s2 = "s\<lparr>trace := trace s @ setup_events s\<rparr>"
  from assms obtain r s3 where w: "write_loop (socket_ret s) cmd ?s2 = Some (r, s3)"
    by (auto simp: session_comm_connected [OF assms(1)] split: option.splits)
  from write_loop_events [OF w] obtain evs1 where
    e1: "trace s3 = trace s @ setup_events s @ evs1"
    by auto
  show ?thesis
  proof (cases "r = 0")
    case True
    with assms w e1 show ?thesis
      by (auto simp: session_comm_connected [OF assms(1)])
  next
    case rnz: False
    from assms w rnz obtain y where
      rd: "read_loop (socket_ret s) reply rs s3 = Some y"
      by (auto simp: session_comm_connected [OF assms(1)] split: option.splits)
    show ?thesis
    proof (cases y)
      case (Inl f)
      with assms w rnz rd e1 show ?thesis
        by (auto simp: session_comm_connected [OF assms(1)])
    next
      case (Inr t)
      obtain r' reply1 s4 where t: "t = (r', reply1, s4)" by (cases t)
      from read_loop_events [OF rd] Inr t obtain evs2 where
        e2: "trace s4 = trace s3 @ evs2"
        by auto
      from assms w rnz rd Inr t e1 e2 show ?thesis
        by (auto simp: session_comm_connected [OF assms(1)] split: if_splits sum.splits)
    qed
  qed
qed

lemma atoi_no_digits:
  assumes "list_all (\<lambda>c. \<not> isdigit c) str"
  shows "atoi str = Inr 0"
proof -
  have d: "digits_value cs = 0" if "list_all (\<lambda>c. \<not> isdigit c) cs" for cs
    using that by (cases cs) (simp_all add: digits_value_def)
  have v: "signed_value cs = 0" if "list_all (\<lambda>c. \<not> isdigit c) cs" for cs
  proof (cases cs)
    case Nil
    then show ?thesis by simp
  next
    case (Cons c cs')
    with that have "list_all (\<lambda>c. \<not> isdigit c) cs'" by simp
    with that Cons show ?thesis by (simp add: d)
  qed
  from assms have "list_all (\<lambda>c. \<not> isdigit c) (dropWhile isspace str)"
    by (induction str) simp_all
  then have "signed_value (dropWhile isspace str) = 0"
    by (rule v)
  then show ?thesis
    by (simp add: atoi_def strtol_value_def)
qed

lemma transport_fails_session:
  assumes "transport_fails c cmd rs s"
  shows "\<exists>s'. session_comm cmd reply rs s = Some (Inr (-1), reply, s')"
proof (cases c)
  case Env_unset
  with assms show ?thesis by (simp add: session_comm_no_env)
next
  case Socket_failed
  with assms show ?thesis by (auto simp: session_comm_no_socket)
next
  case Address_too_long
  with assms show ?thesis by (auto simp: session_comm_too_long split: option.splits)
next
  case Connect_failed
  with assms show ?thesis by (auto simp: session_comm_no_connect split: option.splits)
next
  case (Write_failed k)
  with assms session_write_failed [of s k cmd reply rs] show ?thesis by auto
next
  case (Nothing_written k)
  with assms session_write_nothing [of s k _ cmd reply rs] show ?thesis
    by (auto split: answer.splits)
next
  case (Read_failed kw kr)
  with assms session_read_failed [of s cmd kw kr reply rs] show ?thesis by auto
next
  case (Unexpected_eof kw kr)
  with assms session_read_eof [of s cmd kw kr _ rs reply] show ?thesis
    by (auto split: answer.splits simp del: take_eq_Nil)
qed


lemma fake_connected: "connected (fake_daemon kw wa kr ra)"
  by (simp add: connected_def fake_daemon_def getenv_def NAME_def)

lemma reply_to_callerD:
  assumes "reply_to_caller verb res = Some (v, s')"
  shows "\<exists>v0 reply. res = Some (v0, reply, s')"
  using assms
  by (auto simp: reply_to_caller_def split: option.splits sum.splits if_splits)

lemma session_comm_writes:
  assumes "session_comm cmd reply rs s = Some (res, reply', s')"
    and "Write fd buf r \<in> set (drop (length (trace s)) (trace s'))"
  shows "buf = cmd"
proof -
  from session_comm_events [OF assms(1)] obtain evs where
    t: "trace s' = trace s @ evs"
    and c: "case res of
       Inl f \<Rightarrow> list_all (inner_event cmd) evs
     | Inr rv \<Rightarrow>
         if getenv ''XDG_RUNTIME_DIR'' s \<noteq> None \<and> 0 \<le> socket_ret s then
           \<exists>body. evs = body @ [Close (socket_ret s)] \<and> list_all (inner_event cmd) body
         else list_all (inner_event cmd) evs"
    by blast
  from c have e: "list_all (inner_event cmd) evs \<or>
      (\<exists>body. evs = body @ [Close (socket_ret s)] \<and> list_all (inner_event cmd) body)"
    by (cases res) (simp_all split: if_splits)
  from t assms(2) have "Write fd buf r \<in> set evs" by simp
  with e show ?thesis
    by (auto dest: list_all_inner_writes)
qed

lemma handler_msgs:
  assumes "(verb, h, hi, msg) \<in> set handlers"
  shows "msg \<noteq> ''media-session communication failed'' \<and> msg \<noteq> ''media-session replied -1''"
  using assms by (auto simp: handlers_def)

lemma reply_to_caller_fail:
  assumes "reply_to_caller verb res = Some (Inr (Req_fail st m), s')"
  shows "m = ''media-session communication failed'' \<or> m = ''media-session replied -1''"
  using assms
  by (auto simp: reply_to_caller_def split: option.splits sum.splits if_splits)

lemma fake_daemon_success:
  assumes "cmd \<noteq> []" and "bs \<noteq> []" and "length bs < 10"
  shows "\<exists>s'. session_comm cmd (replicate 10 None) 10 (fake_daemon 0 (Ok 100) 0 (Ok bs)) =
    Some (Inr 0, map Some bs @ Some (CHR 0x00) # replicate (9 - length bs) None, s')"
proof -
  let ?w = "fake_daemon 0 (Ok 100) 0 (Ok bs)"
  from assms(1) have w: "written cmd 0 ?w"
    by (simp add: fake_daemon_def written_def)
  have r: "retried (read_ans ?w) (n_read ?w) 0"
    by simp
  have a: "read_ans ?w (n_read ?w + 0) = Ok bs"
    by (simp add: fake_daemon_def)
  from assms(2,3) have t: "take 10 bs \<noteq> []" "length (take 10 bs) < length (replicate 10 (None :: char option))"
    by simp_all
  from session_success [OF fake_connected w r a t] assms(3) show ?thesis
    by auto
qed

section \<open>The claims\<close>

text \<open>
  C1. The claim: in every successful exchange in which \<^verbatim>\<open>read\<close> returns \<open>r\<close> bytes,
  \<open>1 \<le> r \<le> reply_size\<close>, the terminating null byte is written at an index strictly inside
  the reply array. The code stores it at index \<open>r\<close> (line 103) after asking \<^verbatim>\<open>read\<close> for
  \<open>reply_size\<close> bytes (line 87): when the daemon sends as many bytes as the array holds, ten
  for every handler, the store is at index 10 of \<^verbatim>\<open>char reply[10]\<close>, one past its end. The
  theorem runs the call on that input.
\<close>

theorem terminator_past_the_array:
  "outcome (session_comm ''volume default -1'' (replicate 10 None) 10
      (fake_daemon 0 (Ok 100) 0 (Ok ''1234567890''))) =
    Some (Inl (Out_of_bounds 10), map Some ''1234567890'',
      [Socket 3, Connect 3 ''/run/user/1000/pipewire-media-session'' 0,
       Write 3 ''volume default -1'' 17, Read 3 10 10])"
  by code_simp

text \<open>
  C2. On every path on which \<open>session_comm\<close> returns after \<^verbatim>\<open>socket\<close> has given a
  descriptor (success, address too long, connect failure, write failure, read failure or
  end of file), the trace of the call holds exactly one \<^verbatim>\<open>close\<close>, of that descriptor, and
  it is the last event: the descriptor is never left open and never closed twice.
\<close>

theorem socket_closed_exactly_once:
  assumes "session_comm cmd reply rs s = Some (Inr rv, reply', s')"
    and "getenv ''XDG_RUNTIME_DIR'' s \<noteq> None" and "0 \<le> socket_ret s"
  shows "\<exists>evs. trace s' = trace s @ evs \<and> filter is_close evs = [Close (socket_ret s)] \<and>
    last evs = Close (socket_ret s)"
proof -
  from session_comm_events [OF assms(1)] assms(2,3) obtain body where
    "trace s' = trace s @ body @ [Close (socket_ret s)]" "list_all (inner_event cmd) body"
    by auto
  then have "trace s' = trace s @ (body @ [Close (socket_ret s)]) \<and>
    filter is_close (body @ [Close (socket_ret s)]) = [Close (socket_ret s)] \<and>
    last (body @ [Close (socket_ret s)]) = Close (socket_ret s)"
    by (simp add: list_all_inner_no_close)
  then show ?thesis by blast
qed

theorem socket_closed_exactly_once_witness:
  "\<exists>s'. session_comm ''volume default 42'' (replicate 10 None) 10 (fake_daemon 1 (Ok 100) 1 (Ok ''42'')) =
      Some (Inr 0, [Some CHR ''4'', Some CHR ''2'', Some CHR 0x00, None, None, None, None,
    None, None, None], s') \<and>
     (\<exists>evs. trace s' = trace (fake_daemon 1 (Ok 100) 1 (Ok ''42'')) @ evs \<and> filter is_close evs = [Close 3] \<and>
    last evs = Close 3)"
proof -
  let ?w = "fake_daemon 1 (Ok 100) 1 (Ok ''42'')"
  have c: "connected ?w"
    by (simp add: connected_def fake_daemon_def getenv_def NAME_def)
  have w: "written ''volume default 42'' 1 ?w"
    by (simp add: fake_daemon_def written_def)
  have r: "retried (read_ans ?w) (n_read ?w) 1"
    by (simp add: fake_daemon_def)
  have a: "read_ans ?w (n_read ?w + 1) = Ok ''42''"
    by (simp add: fake_daemon_def)
  from session_success [OF c w r a, of 10 "replicate 10 None"] obtain s' where
    s': "session_comm ''volume default 42'' (replicate 10 None) 10 ?w =
      Some (Inr 0, [Some CHR ''4'', Some CHR ''2'', Some CHR 0x00, None, None, None, None,
    None, None, None], s')"
    by (auto simp: numeral_eq_Suc)
  have "getenv ''XDG_RUNTIME_DIR'' ?w \<noteq> None" "0 \<le> socket_ret ?w" "socket_ret ?w = 3"
    by (simp_all add: fake_daemon_def getenv_def)
  with socket_closed_exactly_once [OF s'] s' show ?thesis
    by auto
qed

text \<open>
  C3. The claim as stated, that after a successful call all \<^verbatim>\<open>strlen(command)\<close> bytes have
  been transmitted, fails: \<^verbatim>\<open>write\<close> may take fewer bytes than it is offered, and the code
  only tests the return value against 0. In the scenario below the kernel takes 3 of the
  17 bytes and the call still returns 0.
\<close>

theorem partial_write_counterexample:
  "outcome (session_comm ''volume default 42'' (replicate 10 None) 10
      (fake_daemon 0 (Ok 3) 0 (Ok ''42''))) =
    Some (Inr 0,
      [Some CHR ''4'', Some CHR ''2'', Some CHR 0x00, None, None, None, None, None, None, None],
      [Socket 3, Connect 3 ''/run/user/1000/pipewire-media-session'' 0,
       Write 3 ''volume default 42'' 3, Read 3 10 2, Close 3]) \<and>
   length ''volume default 42'' = 17"
  by code_simp

text \<open>
  C3, amended. Once connected, \<open>session_comm\<close> offers the whole command to every call of
  \<^verbatim>\<open>write\<close> and calls again as long as the call fails with \<^verbatim>\<open>EAGAIN\<close> or \<^verbatim>\<open>EINTR\<close>. Any
  other error is fatal for the call, and so is a write of zero bytes: both return \<open>-1\<close>
  after \<^verbatim>\<open>Nothing was written\<close>, with the socket closed and nothing read. Otherwise the call
  goes on to read after the one write that took \<open>r\<close> bytes, \<open>1 \<le> r \<le> strlen(command)\<close>,
  and writes nothing more: what has been transmitted is the first \<open>r\<close> bytes of the
  command, not necessarily all of it.
\<close>

theorem write_step:
  assumes "connected s" and "retried (write_ans s) (n_write s) k"
  shows "(fatal_error (write_ans s (n_write s + k)) \<longrightarrow>
      (\<exists>s'. session_comm cmd reply rs s = Some (Inr (-1), reply, s') \<and>
        trace s' = trace s @ setup_events s @ write_events cmd k s @
          [Perror ''write'', Stderr ''Nothing was written'', Close (socket_ret s)])) \<and>
    (\<forall>n. write_ans s (n_write s + k) = Ok n \<and> min n (length cmd) = 0 \<longrightarrow>
      (\<exists>s'. session_comm cmd reply rs s = Some (Inr (-1), reply, s') \<and>
        trace s' = trace s @ setup_events s @ write_events cmd k s @
          [Stderr ''Nothing was written'', Close (socket_ret s)])) \<and>
    (\<forall>n res reply' s'. write_ans s (n_write s + k) = Ok n \<and> 0 < min n (length cmd) \<and>
        session_comm cmd reply rs s = Some (res, reply', s') \<longrightarrow>
      (\<exists>evs. trace s' = trace s @ setup_events s @
          replicate k (Write (socket_ret s) cmd (-1)) @
          [Write (socket_ret s) cmd (int (min n (length cmd)))] @ evs \<and>
        filter is_write evs = []))"
proof (intro conjI allI impI)
  assume "fatal_error (write_ans s (n_write s + k))"
  with assms show "\<exists>s'. session_comm cmd reply rs s = Some (Inr (-1), reply, s') \<and>
        trace s' = trace s @ setup_events s @ write_events cmd k s @
          [Perror ''write'', Stderr ''Nothing was written'', Close (socket_ret s)]"
    by (rule session_write_failed)
next
  fix n
  assume "write_ans s (n_write s + k) = Ok n \<and> min n (length cmd) = 0"
  then have "write_ans s (n_write s + k) = Ok n" "min n (length cmd) = 0" by simp_all
  with assms show "\<exists>s'. session_comm cmd reply rs s = Some (Inr (-1), reply, s') \<and>
        trace s' = trace s @ setup_events s @ write_events cmd k s @
          [Stderr ''Nothing was written'', Close (socket_ret s)]"
    by (rule session_write_nothing)
next
  fix n res reply' s'
  assume a: "write_ans s (n_write s + k) = Ok n \<and> 0 < min n (length cmd) \<and>
        session_comm cmd reply rs s = Some (res, reply', s')"
  with assms(2) have w: "written cmd k s" by (simp add: written_def)
  from a have "write_events cmd k s = replicate k (Write (socket_ret s) cmd (-1)) @
          [Write (socket_ret s) cmd (int (min n (length cmd)))]"
    by (simp add: write_events_def)
  with session_written_trace [OF assms(1) w, of reply rs res reply' s'] a
  show "\<exists>evs. trace s' = trace s @ setup_events s @
          replicate k (Write (socket_ret s) cmd (-1)) @
          [Write (socket_ret s) cmd (int (min n (length cmd)))] @ evs \<and>
        filter is_write evs = []"
    by simp
qed

theorem write_step_witness:
  "(\<exists>s'. session_comm ''volume default 42'' (replicate 10 None) 10
        (fake_daemon 1 (Ok 0) 0 (Ok ''42'')) = Some (Inr (-1), replicate 10 None, s') \<and>
      trace s' = [Socket 3, Connect 3 ''/run/user/1000/pipewire-media-session'' 0,
        Write 3 ''volume default 42'' (-1), Write 3 ''volume default 42'' 0,
        Stderr ''Nothing was written'', Close 3]) \<and>
   (\<exists>s'. session_comm ''volume default 42'' (replicate 10 None) 10
        (fake_daemon 1 (Err 32) 0 (Ok ''42'')) = Some (Inr (-1), replicate 10 None, s') \<and>
      trace s' = [Socket 3, Connect 3 ''/run/user/1000/pipewire-media-session'' 0,
        Write 3 ''volume default 42'' (-1), Write 3 ''volume default 42'' (-1),
        Perror ''write'', Stderr ''Nothing was written'', Close 3]) \<and>
   (\<exists>reply' s' evs. session_comm ''volume default 42'' (replicate 10 None) 10
        (fake_daemon 1 (Ok 3) 0 (Ok ''42'')) = Some (Inr 0, reply', s') \<and>
      trace s' = [Socket 3, Connect 3 ''/run/user/1000/pipewire-media-session'' 0,
        Write 3 ''volume default 42'' (-1), Write 3 ''volume default 42'' 3] @ evs \<and>
      filter is_write evs = [])"
proof (intro conjI)
  let ?w = "fake_daemon 1 (Ok 0) 0 (Ok ''42'')"
  have r: "retried (write_ans ?w) (n_write ?w) 1"
    by (simp add: fake_daemon_def)
  have a: "write_ans ?w (n_write ?w + 1) = Ok 0"
    by (simp add: fake_daemon_def)
  from write_step [OF fake_connected r, of "''volume default 42''" "replicate 10 None" 10] a
  show "\<exists>s'. session_comm ''volume default 42'' (replicate 10 None) 10 ?w =
        Some (Inr (-1), replicate 10 None, s') \<and>
      trace s' = [Socket 3, Connect 3 ''/run/user/1000/pipewire-media-session'' 0,
        Write 3 ''volume default 42'' (-1), Write 3 ''volume default 42'' 0,
        Stderr ''Nothing was written'', Close 3]"
    by (simp add: fake_daemon_def setup_events_def write_events_def getenv_def NAME_def)
next
  let ?w = "fake_daemon 1 (Err 32) 0 (Ok ''42'')"
  have r: "retried (write_ans ?w) (n_write ?w) 1"
    by (simp add: fake_daemon_def)
  have a: "fatal_error (write_ans ?w (n_write ?w + 1))"
    by (simp add: fake_daemon_def fatal_error_def EAGAIN_def EINTR_def)
  from write_step [OF fake_connected r, of "''volume default 42''" "replicate 10 None" 10] a
  show "\<exists>s'. session_comm ''volume default 42'' (replicate 10 None) 10 ?w =
        Some (Inr (-1), replicate 10 None, s') \<and>
      trace s' = [Socket 3, Connect 3 ''/run/user/1000/pipewire-media-session'' 0,
        Write 3 ''volume default 42'' (-1), Write 3 ''volume default 42'' (-1),
        Perror ''write'', Stderr ''Nothing was written'', Close 3]"
    by (simp add: fake_daemon_def setup_events_def write_events_def getenv_def NAME_def)
next
  let ?w = "fake_daemon 1 (Ok 3) 0 (Ok ''42'')"
  have r: "retried (write_ans ?w) (n_write ?w) 1"
    by (simp add: fake_daemon_def)
  have a: "write_ans ?w (n_write ?w + 1) = Ok 3"
    by (simp add: fake_daemon_def)
  have w: "written ''volume default 42'' 1 ?w"
    by (simp add: fake_daemon_def written_def)
  have rr: "retried (read_ans ?w) (n_read ?w) 0"
    by simp
  have ra: "read_ans ?w (n_read ?w + 0) = Ok ''42''"
    by (simp add: fake_daemon_def)
  from session_success [OF fake_connected w rr ra, of 10 "replicate 10 None"]
  obtain reply' s' where s': "session_comm ''volume default 42'' (replicate 10 None) 10 ?w =
      Some (Inr 0, reply', s')"
    by auto
  have m: "0 < min (3::nat) (length ''volume default 42'')"
    by simp
  from write_step [OF fake_connected r, of "''volume default 42''" "replicate 10 None" 10]
  have "\<forall>n res reply' s'. write_ans ?w (n_write ?w + 1) = Ok n \<and>
        0 < min n (length ''volume default 42'') \<and>
        session_comm ''volume default 42'' (replicate 10 None) 10 ?w = Some (res, reply', s') \<longrightarrow>
      (\<exists>evs. trace s' = trace ?w @ setup_events ?w @
          replicate 1 (Write (socket_ret ?w) ''volume default 42'' (-1)) @
          [Write (socket_ret ?w) ''volume default 42''
            (int (min n (length ''volume default 42'')))] @ evs \<and>
        filter is_write evs = [])"
    by blast
  with a m s'
  obtain evs where "trace s' = trace ?w @ setup_events ?w @
      replicate 1 (Write (socket_ret ?w) ''volume default 42'' (-1)) @
      [Write (socket_ret ?w) ''volume default 42''
        (int (min 3 (length ''volume default 42'')))] @ evs"
    "filter is_write evs = []"
    by blast
  then have "trace s' = [Socket 3, Connect 3 ''/run/user/1000/pipewire-media-session'' 0,
        Write 3 ''volume default 42'' (-1), Write 3 ''volume default 42'' 3] @ evs \<and>
      filter is_write evs = []"
    by (simp add: fake_daemon_def setup_events_def getenv_def NAME_def)
  with s' show "\<exists>reply' s' evs. session_comm ''volume default 42'' (replicate 10 None) 10 ?w =
        Some (Inr 0, reply', s') \<and>
      trace s' = [Socket 3, Connect 3 ''/run/user/1000/pipewire-media-session'' 0,
        Write 3 ''volume default 42'' (-1), Write 3 ''volume default 42'' 3] @ evs \<and>
      filter is_write evs = []"
    by blast
qed

text \<open>
  C4. For each of the three handlers, on a request that passes validation: every failure
  of the transport (variable unset, socket, address too long, connect, write error or
  nothing written, read error or end of file) makes \<open>session_comm\<close> return \<open>-1\<close>, and
  the handler answers with the one message \<^verbatim>\<open>media-session communication failed\<close>; when
  the transport succeeds and the reply parses to a negative integer the handler answers
  \<^verbatim>\<open>media-session replied -1\<close>, a different failure.
\<close>

theorem transport_failures_collapse:
  assumes "(verb, h, hi, msg) \<in> set handlers"
    and "map_of request ''role'' = Some role"
    and "map_of request ''value'' = None \<and> v = -1 \<or>
      (\<exists>str. map_of request ''value'' = Some str \<and> atoi str = Inr v \<and> 0 \<le> v \<and> v \<le> hi)"
  shows "(transport_fails c (take 99 (verb @ '' '' @ role @ '' '' @ fmt_d v)) 10 s \<longrightarrow>
      (\<exists>s'. h request s =
        Some (Inr (Req_fail ''failed'' ''media-session communication failed''), s'))) \<and>
    (\<forall>rc reply s'.
      session_comm (take 99 (verb @ '' '' @ role @ '' '' @ fmt_d v)) (replicate 10 None) 10 s =
        Some (Inr rc, reply, s') \<and> rc < 0 \<longrightarrow>
      h request s = Some (Inr (Req_fail ''failed'' ''media-session communication failed''), s')) \<and>
    (\<forall>rc reply s' str n.
      session_comm (take 99 (verb @ '' '' @ role @ '' '' @ fmt_d v)) (replicate 10 None) 10 s =
        Some (Inr rc, reply, s') \<and> 0 \<le> rc \<and> c_str reply = Inr str \<and> atoi str = Inr n \<and>
        n < 0 \<longrightarrow>
      h request s = Some (Inr (Req_fail ''failed'' ''media-session replied -1''), s')) \<and>
    Req_fail ''failed'' ''media-session replied -1'' \<noteq>
      Req_fail ''failed'' ''media-session communication failed''"
proof -
  let ?cmd = "take 99 (verb @ '' '' @ role @ '' '' @ fmt_d v)"
  have h: "h request s = reply_to_caller verb (session_comm ?cmd (replicate 10 None) 10 s)"
    by (simp add: in_handlers [OF assms(1)] get_or_set_call [OF assms(2,3)])
  have "\<exists>s'. h request s =
      Some (Inr (Req_fail ''failed'' ''media-session communication failed''), s')"
    if "transport_fails c ?cmd 10 s"
  proof -
    from transport_fails_session [OF that, of "replicate 10 None"] obtain s' where
      "session_comm ?cmd (replicate 10 None) 10 s = Some (Inr (-1), replicate 10 None, s')"
      by blast
    then have "h request s =
      Some (Inr (Req_fail ''failed'' ''media-session communication failed''), s')"
      by (simp add: h reply_to_caller_def)
    then show ?thesis by blast
  qed
  then show ?thesis
    by (auto simp: h reply_to_caller_def)
qed

theorem transport_failures_collapse_witness:
  "(\<exists>s'. mute [(''role'', ''default'')] (fake_daemon 1 (Ok 100) 1 (Ok [])) =
      Some (Inr (Req_fail ''failed'' ''media-session communication failed''), s')) \<and>
   (\<exists>s'. mute [(''role'', ''default'')] (fake_daemon 1 (Ok 100) 1 (Ok ''-1'')) =
      Some (Inr (Req_fail ''failed'' ''media-session replied -1''), s'))"
proof (intro conjI)
  let ?w = "fake_daemon 1 (Ok 100) 1 (Ok [])"
  have hd: "(''mute'', mute, 1, ''Invalid mute value (must be between 0 and 1)'') \<in> set handlers"
    by (simp add: handlers_def)
  have role: "map_of [(''role'', ''default'')] ''role'' = Some ''default''"
    by simp
  have val: "map_of [(''role'', ''default'')] ''value'' = None \<and> (-1::int) = -1 \<or>
      (\<exists>str. map_of [(''role'', ''default'')] ''value'' = Some str \<and> atoi str = Inr (-1) \<and>
        (0::int) \<le> -1 \<and> (-1::int) \<le> 1)"
    by simp
  have cmd: "take 99 (''mute'' @ '' '' @ ''default'' @ '' '' @ fmt_d (-1)) = ''mute default -1''"
    by code_simp
  have "transport_fails (Unexpected_eof 1 1) ''mute default -1'' 10 ?w"
    using fake_connected [of 1 "Ok 100" 1 "Ok []"] by (simp add: written_def fake_daemon_def)
  with transport_failures_collapse [OF hd role val, of "Unexpected_eof 1 1" ?w]
  show "\<exists>s'. mute [(''role'', ''default'')] ?w =
      Some (Inr (Req_fail ''failed'' ''media-session communication failed''), s')"
    by (simp only: cmd)
next
  let ?w = "fake_daemon 1 (Ok 100) 1 (Ok ''-1'')"
  have hd: "(''mute'', mute, 1, ''Invalid mute value (must be between 0 and 1)'') \<in> set handlers"
    by (simp add: handlers_def)
  have role: "map_of [(''role'', ''default'')] ''role'' = Some ''default''"
    by simp
  have val: "map_of [(''role'', ''default'')] ''value'' = None \<and> (-1::int) = -1 \<or>
      (\<exists>str. map_of [(''role'', ''default'')] ''value'' = Some str \<and> atoi str = Inr (-1) \<and>
        (0::int) \<le> -1 \<and> (-1::int) \<le> 1)"
    by simp
  have cmd: "take 99 (''mute'' @ '' '' @ ''default'' @ '' '' @ fmt_d (-1)) = ''mute default -1''"
    by code_simp
  have w: "written ''mute default -1'' 1 ?w"
    by (simp add: fake_daemon_def written_def)
  have r: "retried (read_ans ?w) (n_read ?w) 1"
    by (simp add: fake_daemon_def)
  have a: "read_ans ?w (n_read ?w + 1) = Ok ''-1''"
    by (simp add: fake_daemon_def)
  from session_success [OF fake_connected w r a, of 10 "replicate 10 None"] obtain s' where
    s': "session_comm ''mute default -1'' (replicate 10 None) 10 ?w =
      Some (Inr 0, [Some CHR ''-'', Some CHR ''1'', Some CHR 0x00, None, None, None, None,
        None, None, None], s')"
    by (auto simp: numeral_eq_Suc)
  have c: "c_str [Some CHR ''-'', Some CHR ''1'', Some CHR 0x00, None, None, None, None,
        None, None, None] = Inr ''-1''"
    by simp
  have n: "atoi ''-1'' = Inr (-1)"
    by code_simp
  from transport_failures_collapse [OF hd role val, of _ ?w, unfolded cmd] s' c n
  have "mute [(''role'', ''default'')] ?w =
      Some (Inr (Req_fail ''failed'' ''media-session replied -1''), s')"
    by (metis (no_types, opaque_lifting) order_refl neg_less_0_iff_less zero_less_one)
  then show "\<exists>s'. mute [(''role'', ''default'')] ?w =
      Some (Inr (Req_fail ''failed'' ''media-session replied -1''), s')"
    by blast
qed

text \<open>
  C5. The claim: a value that is supplied and parses to an integer outside the range of the
  verb (volume 0 to 100, mute 0 to 1, zone 0 to 4) fails at once with the validation
  message, and the transport is not called. The handlers parse with \<^verbatim>\<open>atoi\<close> (lines 119,
  154 and 189) and test the \<^verbatim>\<open>int\<close> it returns: for a numeral that does not fit \<^verbatim>\<open>int\<close>, which
  is far outside every range, \<^verbatim>\<open>atoi\<close> is undefined and the test of the range decides
  nothing. The theorem runs the three handlers on such values: none of the calls ends in
  the validation failure.
\<close>

theorem value_beyond_int_not_rejected:
  "atoi ''4294967338'' = Inl Not_representable \<and>
   seen (volume [(''role'', ''default''), (''value'', ''4294967338'')]
       (fake_daemon 0 (Ok 100) 0 (Ok ''42''))) =
     Some (Inl Not_representable, []) \<and>
   seen (mute [(''role'', ''default''), (''value'', ''4294967297'')]
       (fake_daemon 0 (Ok 100) 0 (Ok ''1''))) =
     Some (Inl Not_representable, []) \<and>
   seen (zone [(''role'', ''default''), (''value'', ''-4294967292'')]
       (fake_daemon 0 (Ok 100) 0 (Ok ''4''))) =
     Some (Inl Not_representable, [])"
  by code_simp

text \<open>
  For the values that \<^verbatim>\<open>atoi\<close> can represent, the handlers do what C5 says: a value outside the
  range of the verb is answered at once with the verb's validation message, and the
  environment is returned as it was, so that no socket has been opened and nothing has
  been sent.
\<close>

theorem out_of_range_rejected:
  assumes "(verb, h, hi, msg) \<in> set handlers"
    and "map_of request ''value'' = Some str" and "atoi str = Inr n" and "n < 0 \<or> hi < n"
  shows "h request s = Some (Inr (Req_fail ''failed'' msg), s)"
  using assms(2-) by (simp add: in_handlers [OF assms(1)] get_or_set_invalid)

theorem out_of_range_rejected_witness:
  "volume [(''role'', ''default''), (''value'', ''101'')] (fake_daemon 0 (Ok 100) 0 (Ok ''42'')) =
     Some (Inr (Req_fail ''failed'' ''Invalid volume value (must be between 0 and 100)''),
       fake_daemon 0 (Ok 100) 0 (Ok ''42'')) \<and>
   mute [(''role'', ''default''), (''value'', ''2'')] (fake_daemon 0 (Ok 100) 0 (Ok ''42'')) =
     Some (Inr (Req_fail ''failed'' ''Invalid mute value (must be between 0 and 1)''),
       fake_daemon 0 (Ok 100) 0 (Ok ''42'')) \<and>
   zone [(''role'', ''default''), (''value'', ''-3'')] (fake_daemon 0 (Ok 100) 0 (Ok ''42'')) =
     Some (Inr (Req_fail ''failed'' ''Invalid mute value (must be between 0 and 4)''),
       fake_daemon 0 (Ok 100) 0 (Ok ''42''))"
proof (intro conjI)
  have "atoi ''101'' = Inr 101"
    by code_simp
  then show "volume [(''role'', ''default''), (''value'', ''101'')]
      (fake_daemon 0 (Ok 100) 0 (Ok ''42'')) =
     Some (Inr (Req_fail ''failed'' ''Invalid volume value (must be between 0 and 100)''),
       fake_daemon 0 (Ok 100) 0 (Ok ''42''))"
    by (intro out_of_range_rejected [where verb = "''volume''" and hi = 100 and n = 101
          and str = "''101''"]) (simp_all add: handlers_def)
next
  have "atoi ''2'' = Inr 2"
    by code_simp
  then show "mute [(''role'', ''default''), (''value'', ''2'')]
      (fake_daemon 0 (Ok 100) 0 (Ok ''42'')) =
     Some (Inr (Req_fail ''failed'' ''Invalid mute value (must be between 0 and 1)''),
       fake_daemon 0 (Ok 100) 0 (Ok ''42''))"
    by (intro out_of_range_rejected [where verb = "''mute''" and hi = 1 and n = 2
          and str = "''2''"]) (simp_all add: handlers_def)
next
  have "atoi ''-3'' = Inr (-3)"
    by code_simp
  then show "zone [(''role'', ''default''), (''value'', ''-3'')]
      (fake_daemon 0 (Ok 100) 0 (Ok ''42'')) =
     Some (Inr (Req_fail ''failed'' ''Invalid mute value (must be between 0 and 4)''),
       fake_daemon 0 (Ok 100) 0 (Ok ''42''))"
    by (intro out_of_range_rejected [where verb = "''zone''" and hi = 4 and n = "-3"
          and str = "''-3''"]) (simp_all add: handlers_def)
qed

text \<open>
  C6. When the runtime directory, \<^verbatim>\<open>/\<close> and the service name, with the terminator, take
  more than 108 bytes, \<open>session_comm\<close> returns \<open>-1\<close> without calling \<^verbatim>\<open>connect\<close>: after
  the address-too-long message and the close of the socket (or, when \<^verbatim>\<open>socket\<close> itself has
  failed, after that error). A path of up to 107 characters passes the check: \<^verbatim>\<open>connect\<close>
  is called with the whole path.
\<close>

theorem address_checked_before_connect:
  assumes "getenv ''XDG_RUNTIME_DIR'' s = Some dir"
  shows "(108 < length (dir @ ''/'' @ NAME) + 1 \<longrightarrow>
      session_comm cmd reply rs s =
        Some (Inr (-1), reply,
          s\<lparr>trace := trace s @
            (if socket_ret s < 0 then [Socket (socket_ret s), Perror ''socket'']
             else [Socket (socket_ret s),
               Stderr (''socket path '' @ [CHR 0x22] @ dir @ ''/'' @ NAME @ [CHR 0x22]
                 @ '' plus null terminator exceeds 108 bytes''),
               Close (socket_ret s)])\<rparr>)) \<and>
    (length (dir @ ''/'' @ NAME) + 1 \<le> 108 \<and> 0 \<le> socket_ret s \<longrightarrow>
      (connect_ret s < 0 \<longrightarrow>
        session_comm cmd reply rs s =
          Some (Inr (-1), reply,
            s\<lparr>trace := trace s @ [Socket (socket_ret s),
              Connect (socket_ret s) (dir @ ''/'' @ NAME) (connect_ret s), Perror ''connect'',
              Close (socket_ret s)]\<rparr>)) \<and>
      (\<forall>res reply' s'. session_comm cmd reply rs s = Some (res, reply', s') \<longrightarrow>
        (\<exists>evs. trace s' = trace s @ Socket (socket_ret s) #
          Connect (socket_ret s) (dir @ ''/'' @ NAME) (connect_ret s) # evs)))"
proof (intro conjI allI impI)
  assume long: "108 < length (dir @ ''/'' @ NAME) + 1"
  show "session_comm cmd reply rs s =
        Some (Inr (-1), reply,
          s\<lparr>trace := trace s @
            (if socket_ret s < 0 then [Socket (socket_ret s), Perror ''socket'']
             else [Socket (socket_ret s),
               Stderr (''socket path '' @ [CHR 0x22] @ dir @ ''/'' @ NAME @ [CHR 0x22]
                 @ '' plus null terminator exceeds 108 bytes''),
               Close (socket_ret s)])\<rparr>)"
  proof (cases "socket_ret s < 0")
    case True
    then show ?thesis by (simp add: session_comm_no_socket [OF assms])
  next
    case False
    then have "0 \<le> socket_ret s" by simp
    from session_comm_too_long [OF assms this long] False show ?thesis by simp
  qed
next
  assume "length (dir @ ''/'' @ NAME) + 1 \<le> 108 \<and> 0 \<le> socket_ret s" and "connect_ret s < 0"
  then show "session_comm cmd reply rs s =
          Some (Inr (-1), reply,
            s\<lparr>trace := trace s @ [Socket (socket_ret s),
              Connect (socket_ret s) (dir @ ''/'' @ NAME) (connect_ret s), Perror ''connect'',
              Close (socket_ret s)]\<rparr>)"
    using session_comm_no_connect [OF assms] by blast
next
  fix res reply' s'
  assume f: "length (dir @ ''/'' @ NAME) + 1 \<le> 108 \<and> 0 \<le> socket_ret s"
    and r: "session_comm cmd reply rs s = Some (res, reply', s')"
  show "\<exists>evs. trace s' = trace s @ Socket (socket_ret s) #
          Connect (socket_ret s) (dir @ ''/'' @ NAME) (connect_ret s) # evs"
  proof (cases "connect_ret s < 0")
    case True
    with f r session_comm_no_connect [OF assms, of cmd reply rs] show ?thesis by auto
  next
    case False
    with f assms have c: "connected s" by (simp add: connected_def)
    from session_connected_trace [OF c r] assms show ?thesis
      by (simp add: setup_events_def)
  qed
qed

theorem address_checked_before_connect_witness:
  "session_comm ''zone default 2'' (replicate 10 None) 10
      ((fake_daemon 0 (Ok 100) 0 (Ok ''2''))
        \<lparr>environ := [(''XDG_RUNTIME_DIR'', replicate 85 (CHR ''d''))]\<rparr>) =
     Some (Inr (-1), replicate 10 None,
       (fake_daemon 0 (Ok 100) 0 (Ok ''2''))
        \<lparr>environ := [(''XDG_RUNTIME_DIR'', replicate 85 (CHR ''d''))],
         trace := [Socket 3,
           Stderr (''socket path '' @ [CHR 0x22] @ replicate 85 (CHR ''d'') @
             ''/pipewire-media-session'' @ [CHR 0x22] @
             '' plus null terminator exceeds 108 bytes''),
           Close 3]\<rparr>) \<and>
   session_comm ''zone default 2'' (replicate 10 None) 10
      ((fake_daemon 0 (Ok 100) 0 (Ok ''2''))
        \<lparr>environ := [(''XDG_RUNTIME_DIR'', replicate 84 (CHR ''d''))], connect_ret := -1\<rparr>) =
     Some (Inr (-1), replicate 10 None,
       (fake_daemon 0 (Ok 100) 0 (Ok ''2''))
        \<lparr>environ := [(''XDG_RUNTIME_DIR'', replicate 84 (CHR ''d''))], connect_ret := -1,
         trace := [Socket 3,
           Connect 3 (replicate 84 (CHR ''d'') @ ''/pipewire-media-session'') (-1),
           Perror ''connect'', Close 3]\<rparr>) \<and>
   length (replicate 84 (CHR ''d'') @ ''/pipewire-media-session'') = 107"
proof (intro conjI)
  let ?w = "(fake_daemon 0 (Ok 100) 0 (Ok ''2''))
        \<lparr>environ := [(''XDG_RUNTIME_DIR'', replicate 85 (CHR ''d''))]\<rparr>"
  have e: "getenv ''XDG_RUNTIME_DIR'' ?w = Some (replicate 85 (CHR ''d''))"
    by (simp add: getenv_def)
  from address_checked_before_connect [OF e, of "''zone default 2''" "replicate 10 None" 10]
  show "session_comm ''zone default 2'' (replicate 10 None) 10 ?w =
     Some (Inr (-1), replicate 10 None,
       (fake_daemon 0 (Ok 100) 0 (Ok ''2''))
        \<lparr>environ := [(''XDG_RUNTIME_DIR'', replicate 85 (CHR ''d''))],
         trace := [Socket 3,
           Stderr (''socket path '' @ [CHR 0x22] @ replicate 85 (CHR ''d'') @
             ''/pipewire-media-session'' @ [CHR 0x22] @
             '' plus null terminator exceeds 108 bytes''),
           Close 3]\<rparr>)"
    by (simp add: fake_daemon_def NAME_def)
next
  let ?w = "(fake_daemon 0 (Ok 100) 0 (Ok ''2''))
        \<lparr>environ := [(''XDG_RUNTIME_DIR'', replicate 84 (CHR ''d''))], connect_ret := -1\<rparr>"
  have e: "getenv ''XDG_RUNTIME_DIR'' ?w = Some (replicate 84 (CHR ''d''))"
    by (simp add: getenv_def)
  from address_checked_before_connect [OF e, of "''zone default 2''" "replicate 10 None" 10]
  show "session_comm ''zone default 2'' (replicate 10 None) 10 ?w =
     Some (Inr (-1), replicate 10 None,
       (fake_daemon 0 (Ok 100) 0 (Ok ''2''))
        \<lparr>environ := [(''XDG_RUNTIME_DIR'', replicate 84 (CHR ''d''))], connect_ret := -1,
         trace := [Socket 3,
           Connect 3 (replicate 84 (CHR ''d'') @ ''/pipewire-media-session'') (-1),
           Perror ''connect'', Close 3]\<rparr>)"
    by (simp add: fake_daemon_def NAME_def)
next
  show "length (replicate 84 (CHR ''d'') @ ''/pipewire-media-session'') = 107"
    by simp
qed

text \<open>
  C7. After the command is written, \<open>session_comm\<close> calls \<^verbatim>\<open>read\<close> again as long as it
  fails with \<^verbatim>\<open>EAGAIN\<close> or \<^verbatim>\<open>EINTR\<close>, and takes the reply from the first call that does
  not fail, and from that call only. When this call returns zero bytes the result is \<open>-1\<close>
  after the message \<^verbatim>\<open>EOF\<close>, never an empty reply.
\<close>

theorem read_step:
  assumes "connected s" and "written cmd kw s" and "retried (read_ans s) (n_read s) kr"
    and "read_ans s (n_read s + kr) = Ok bs"
  shows "(take rs bs = [] \<longrightarrow>
      (\<exists>s'. session_comm cmd reply rs s = Some (Inr (-1), reply, s') \<and>
        trace s' = trace s @ setup_events s @ write_events cmd kw s @
          replicate kr (Read (socket_ret s) rs (-1)) @
          [Read (socket_ret s) rs 0, Stderr ''EOF'', Close (socket_ret s)])) \<and>
    (take rs bs \<noteq> [] \<and> length (take rs bs) < length reply \<longrightarrow>
      (\<exists>s'. session_comm cmd reply rs s =
          Some (Inr 0,
            map Some (take rs bs) @ Some (CHR 0x00) # drop (Suc (length (take rs bs))) reply,
            s') \<and>
        trace s' = trace s @ setup_events s @ write_events cmd kw s @
          replicate kr (Read (socket_ret s) rs (-1)) @
          [Read (socket_ret s) rs (int (length (take rs bs))), Close (socket_ret s)]))"
proof (intro conjI impI)
  assume e: "take rs bs = []"
  with assms(4) have "read_events rs kr s =
    replicate kr (Read (socket_ret s) rs (-1)) @ [Read (socket_ret s) rs 0]"
    by (simp add: read_events_def del: take_eq_Nil)
  with session_read_eof [OF assms e, of reply]
  show "\<exists>s'. session_comm cmd reply rs s = Some (Inr (-1), reply, s') \<and>
        trace s' = trace s @ setup_events s @ write_events cmd kw s @
          replicate kr (Read (socket_ret s) rs (-1)) @
          [Read (socket_ret s) rs 0, Stderr ''EOF'', Close (socket_ret s)]"
    by simp
next
  assume "take rs bs \<noteq> [] \<and> length (take rs bs) < length reply"
  then have d: "take rs bs \<noteq> []" "length (take rs bs) < length reply" by blast+
  from assms(4) have "read_events rs kr s =
    replicate kr (Read (socket_ret s) rs (-1)) @
      [Read (socket_ret s) rs (int (length (take rs bs)))]"
    by (simp add: read_events_def)
  with session_success [OF assms d]
  show "\<exists>s'. session_comm cmd reply rs s =
          Some (Inr 0,
            map Some (take rs bs) @ Some (CHR 0x00) # drop (Suc (length (take rs bs))) reply,
            s') \<and>
        trace s' = trace s @ setup_events s @ write_events cmd kw s @
          replicate kr (Read (socket_ret s) rs (-1)) @
          [Read (socket_ret s) rs (int (length (take rs bs))), Close (socket_ret s)]"
    by (simp del: length_take)
qed

theorem read_step_witness:
  "(\<exists>s'. session_comm ''mute default -1'' (replicate 10 None) 10
        (fake_daemon 0 (Ok 100) 2 (Ok [])) = Some (Inr (-1), replicate 10 None, s') \<and>
      trace s' = [Socket 3, Connect 3 ''/run/user/1000/pipewire-media-session'' 0,
        Write 3 ''mute default -1'' 15, Read 3 10 (-1), Read 3 10 (-1), Read 3 10 0,
        Stderr ''EOF'', Close 3]) \<and>
   (\<exists>s'. session_comm ''mute default -1'' (replicate 10 None) 10
        (fake_daemon 0 (Ok 100) 2 (Ok ''1'')) =
        Some (Inr 0, [Some CHR ''1'', Some CHR 0x00, None, None, None, None, None, None, None,
          None], s') \<and>
      trace s' = [Socket 3, Connect 3 ''/run/user/1000/pipewire-media-session'' 0,
        Write 3 ''mute default -1'' 15, Read 3 10 (-1), Read 3 10 (-1), Read 3 10 1,
        Close 3])"
proof (intro conjI)
  let ?w = "fake_daemon 0 (Ok 100) 2 (Ok [])"
  have w: "written ''mute default -1'' 0 ?w"
    by (simp add: fake_daemon_def written_def)
  have r: "retried (read_ans ?w) (n_read ?w) 2"
    by (simp add: fake_daemon_def numeral_2_eq_2)
  have a: "read_ans ?w (n_read ?w + 2) = Ok []"
    by (simp add: fake_daemon_def)
  from read_step [OF fake_connected w r a, of 10 "replicate 10 None"]
  show "\<exists>s'. session_comm ''mute default -1'' (replicate 10 None) 10 ?w =
        Some (Inr (-1), replicate 10 None, s') \<and>
      trace s' = [Socket 3, Connect 3 ''/run/user/1000/pipewire-media-session'' 0,
        Write 3 ''mute default -1'' 15, Read 3 10 (-1), Read 3 10 (-1), Read 3 10 0,
        Stderr ''EOF'', Close 3]"
    by (simp add: fake_daemon_def setup_events_def write_events_def getenv_def NAME_def
        numeral_2_eq_2)
next
  let ?w = "fake_daemon 0 (Ok 100) 2 (Ok ''1'')"
  have w: "written ''mute default -1'' 0 ?w"
    by (simp add: fake_daemon_def written_def)
  have r: "retried (read_ans ?w) (n_read ?w) 2"
    by (simp add: fake_daemon_def numeral_2_eq_2)
  have a: "read_ans ?w (n_read ?w + 2) = Ok ''1''"
    by (simp add: fake_daemon_def)
  from read_step [OF fake_connected w r a, of 10 "replicate 10 None"]
  show "\<exists>s'. session_comm ''mute default -1'' (replicate 10 None) 10 ?w =
        Some (Inr 0, [Some CHR ''1'', Some CHR 0x00, None, None, None, None, None, None, None,
          None], s') \<and>
      trace s' = [Socket 3, Connect 3 ''/run/user/1000/pipewire-media-session'' 0,
        Write 3 ''mute default -1'' 15, Read 3 10 (-1), Read 3 10 (-1), Read 3 10 1,
        Close 3]"
    by (simp add: fake_daemon_def setup_events_def write_events_def getenv_def NAME_def
        numeral_2_eq_2 numeral_eq_Suc)
qed

text \<open>
  C8. The claim as stated, that every call sends \<^verbatim>\<open>"<verb> <role> <value>"\<close>, fails for a
  long role: \<^verbatim>\<open>snprintf\<close> writes into \<^verbatim>\<open>char command[100]\<close> and keeps the first 99 bytes. With
  a role of 95 characters the command sent ends inside the role and carries no value.
\<close>

theorem truncated_command_counterexample:
  "seen (volume [(''role'', replicate 95 (CHR ''r'')), (''value'', ''42'')]
      (fake_daemon 0 (Ok 100) 0 (Ok ''42''))) =
    Some (Inr (Req_success [(''volume'', 42)]),
      [Socket 3, Connect 3 ''/run/user/1000/pipewire-media-session'' 0,
       Write 3 (''volume '' @ replicate 92 (CHR ''r'')) 99, Read 3 10 2, Close 3]) \<and>
   length (''volume '' @ replicate 95 (CHR ''r'') @ '' 42'') = 105"
  by code_simp

text \<open>
  C8, amended. Every handler, on a request with a role and no value or a valid value, calls
  the transport with the first 99 bytes of \<^verbatim>\<open>"<verb> <role> <n>"\<close>, where \<open>n\<close> is \<open>-1\<close> when
  no value is supplied and the parsed value otherwise; this is the whole text whenever it
  is at most 99 bytes long, and every write of the call offers exactly these bytes. In the
  scenario of the specification, volume with role \<^verbatim>\<open>default\<close> and value 42 sends
  \<^verbatim>\<open>volume default 42\<close>, and the reply \<^verbatim>\<open>42\<close> gives the result \<open>{volume: 42}\<close>.
\<close>

theorem command_sent:
  assumes "(verb, h, hi, msg) \<in> set handlers"
    and "map_of request ''role'' = Some role"
    and "map_of request ''value'' = None \<and> v = -1 \<or>
      (\<exists>str. map_of request ''value'' = Some str \<and> atoi str = Inr v \<and> 0 \<le> v \<and> v \<le> hi)"
  shows "h request s =
      reply_to_caller verb
        (session_comm (take 99 (verb @ '' '' @ role @ '' '' @ fmt_d v))
          (replicate 10 None) 10 s) \<and>
    (length (verb @ '' '' @ role @ '' '' @ fmt_d v) \<le> 99 \<longrightarrow>
      h request s =
        reply_to_caller verb
          (session_comm (verb @ '' '' @ role @ '' '' @ fmt_d v) (replicate 10 None) 10 s)) \<and>
    (\<forall>res s' fd buf r. h request s = Some (res, s') \<and>
        Write fd buf r \<in> set (drop (length (trace s)) (trace s')) \<longrightarrow>
      buf = take 99 (verb @ '' '' @ role @ '' '' @ fmt_d v)) \<and>
    seen (volume [(''role'', ''default''), (''value'', ''42'')]
        (fake_daemon 0 (Ok 100) 0 (Ok ''42''))) =
      Some (Inr (Req_success [(''volume'', 42)]),
        [Socket 3, Connect 3 ''/run/user/1000/pipewire-media-session'' 0,
         Write 3 ''volume default 42'' 17, Read 3 10 2, Close 3])"
proof -
  let ?cmd = "take 99 (verb @ '' '' @ role @ '' '' @ fmt_d v)"
  have h: "h request s = reply_to_caller verb (session_comm ?cmd (replicate 10 None) 10 s)"
    by (simp add: in_handlers [OF assms(1)] get_or_set_call [OF assms(2,3)])
  have w: "buf = ?cmd"
    if "h request s = Some (res, s')"
      and "Write fd buf r \<in> set (drop (length (trace s)) (trace s'))"
    for res s' fd buf r
  proof -
    from that(1) h reply_to_callerD obtain v0 reply where
      "session_comm ?cmd (replicate 10 None) 10 s = Some (v0, reply, s')"
      by metis
    from session_comm_writes [OF this that(2)] show ?thesis .
  qed
  have c: "seen (volume [(''role'', ''default''), (''value'', ''42'')]
        (fake_daemon 0 (Ok 100) 0 (Ok ''42''))) =
      Some (Inr (Req_success [(''volume'', 42)]),
        [Socket 3, Connect 3 ''/run/user/1000/pipewire-media-session'' 0,
         Write 3 ''volume default 42'' 17, Read 3 10 2, Close 3])"
    by code_simp
  from h w c show ?thesis
    by auto
qed

theorem command_sent_witness:
  "volume [(''role'', ''default''), (''value'', ''42'')] (fake_daemon 0 (Ok 100) 0 (Ok ''42'')) =
     reply_to_caller ''volume''
       (session_comm ''volume default 42'' (replicate 10 None) 10
         (fake_daemon 0 (Ok 100) 0 (Ok ''42''))) \<and>
   mute [(''role'', ''default'')] (fake_daemon 0 (Ok 100) 0 (Ok ''1'')) =
     reply_to_caller ''mute''
       (session_comm ''mute default -1'' (replicate 10 None) 10
         (fake_daemon 0 (Ok 100) 0 (Ok ''1'')))"
proof (intro conjI)
  have hd: "(''volume'', volume, 100, ''Invalid volume value (must be between 0 and 100)'')
      \<in> set handlers"
    by (simp add: handlers_def)
  have role: "map_of [(''role'', ''default''), (''value'', ''42'')] ''role'' = Some ''default''"
    by simp
  have "atoi ''42'' = Inr 42"
    by code_simp
  then have val: "map_of [(''role'', ''default''), (''value'', ''42'')] ''value'' = None \<and>
        (42::int) = -1 \<or>
      (\<exists>str. map_of [(''role'', ''default''), (''value'', ''42'')] ''value'' = Some str \<and>
        atoi str = Inr 42 \<and> (0::int) \<le> 42 \<and> (42::int) \<le> 100)"
    by simp
  have cmd: "take 99 (''volume'' @ '' '' @ ''default'' @ '' '' @ fmt_d 42) = ''volume default 42''"
    by code_simp
  from command_sent [OF hd role val, of "fake_daemon 0 (Ok 100) 0 (Ok ''42'')"]
  show "volume [(''role'', ''default''), (''value'', ''42'')]
      (fake_daemon 0 (Ok 100) 0 (Ok ''42'')) =
     reply_to_caller ''volume''
       (session_comm ''volume default 42'' (replicate 10 None) 10
         (fake_daemon 0 (Ok 100) 0 (Ok ''42'')))"
    by (simp only: cmd)
next
  have hd: "(''mute'', mute, 1, ''Invalid mute value (must be between 0 and 1)'') \<in> set handlers"
    by (simp add: handlers_def)
  have role: "map_of [(''role'', ''default'')] ''role'' = Some ''default''"
    by simp
  have val: "map_of [(''role'', ''default'')] ''value'' = None \<and> (-1::int) = -1 \<or>
      (\<exists>str. map_of [(''role'', ''default'')] ''value'' = Some str \<and> atoi str = Inr (-1) \<and>
        (0::int) \<le> -1 \<and> (-1::int) \<le> 1)"
    by simp
  have cmd: "take 99 (''mute'' @ '' '' @ ''default'' @ '' '' @ fmt_d (-1)) = ''mute default -1''"
    by code_simp
  from command_sent [OF hd role val, of "fake_daemon 0 (Ok 100) 0 (Ok ''1'')"]
  show "mute [(''role'', ''default'')] (fake_daemon 0 (Ok 100) 0 (Ok ''1'')) =
     reply_to_caller ''mute''
       (session_comm ''mute default -1'' (replicate 10 None) 10
         (fake_daemon 0 (Ok 100) 0 (Ok ''1'')))"
    by (simp only: cmd)
qed

text \<open>
  C9. The claim as stated, that the command \<^verbatim>\<open>"<verb> <role> 0"\<close> is sent, fails for a long
  role, for the reason of C8: with a role of 96 characters and the value \<^verbatim>\<open>abc\<close> the
  command sent is cut inside the role and its \<^verbatim>\<open>0\<close> is lost.
\<close>

theorem truncated_zero_counterexample:
  "seen (zone [(''role'', replicate 96 (CHR ''r'')), (''value'', ''abc'')]
      (fake_daemon 0 (Ok 100) 0 (Ok ''0''))) =
    Some (Inr (Req_success [(''zone'', 0)]),
      [Socket 3, Connect 3 ''/run/user/1000/pipewire-media-session'' 0,
       Write 3 (''zone '' @ replicate 94 (CHR ''r'')) 99, Read 3 10 1, Close 3]) \<and>
   length (''zone '' @ replicate 96 (CHR ''r'') @ '' 0'') = 103"
  by code_simp

text \<open>
  C9, amended. When the value supplied parses to 0 under \<^verbatim>\<open>atoi\<close>, as every string without
  a digit does, validation passes for each verb: the handler never answers with its
  validation message, and it calls the transport with the first 99 bytes of the set
  command \<^verbatim>\<open>"<verb> <role> 0"\<close> (the whole command when it is at most 99 bytes long), not
  with the query command.
\<close>

theorem zero_value_sent:
  assumes "(verb, h, hi, msg) \<in> set handlers"
    and "map_of request ''role'' = Some role"
    and "map_of request ''value'' = Some str"
    and "atoi str = Inr 0 \<or> list_all (\<lambda>c. \<not> isdigit c) str"
  shows "h request s =
      reply_to_caller verb
        (session_comm (take 99 (verb @ '' '' @ role @ '' 0'')) (replicate 10 None) 10 s) \<and>
    (length (verb @ '' '' @ role @ '' 0'') \<le> 99 \<longrightarrow>
      h request s =
        reply_to_caller verb
          (session_comm (verb @ '' '' @ role @ '' 0'') (replicate 10 None) 10 s)) \<and>
    (\<forall>s'. h request s \<noteq> Some (Inr (Req_fail ''failed'' msg), s'))"
proof -
  from assms(4) have a: "atoi str = Inr 0"
    by (auto dest: atoi_no_digits)
  from assms(1) have "0 \<le> hi"
    by (auto simp: handlers_def)
  with assms(3) a have v: "map_of request ''value'' = None \<and> (0::int) = -1 \<or>
      (\<exists>str. map_of request ''value'' = Some str \<and> atoi str = Inr 0 \<and> (0::int) \<le> 0 \<and> 0 \<le> hi)"
    by simp
  have f: "fmt_d 0 = ''0''"
    by (simp add: fmt_d_def)
  have h: "h request s = reply_to_caller verb
        (session_comm (take 99 (verb @ '' '' @ role @ '' 0'')) (replicate 10 None) 10 s)"
    using get_or_set_call [OF assms(2) v, of verb msg s]
    by (simp add: in_handlers [OF assms(1)] f)
  have "h request s \<noteq> Some (Inr (Req_fail ''failed'' msg), s')" for s'
    using reply_to_caller_fail [of verb _ "''failed''" msg s'] handler_msgs [OF assms(1)]
    by (auto simp: h)
  with h show ?thesis
    by auto
qed

theorem zero_value_sent_witness:
  "zone [(''role'', ''default''), (''value'', ''abc'')] (fake_daemon 0 (Ok 100) 0 (Ok ''0'')) =
     reply_to_caller ''zone''
       (session_comm ''zone default 0'' (replicate 10 None) 10
         (fake_daemon 0 (Ok 100) 0 (Ok ''0''))) \<and>
   seen (zone [(''role'', ''default''), (''value'', ''abc'')]
       (fake_daemon 0 (Ok 100) 0 (Ok ''0''))) =
     Some (Inr (Req_success [(''zone'', 0)]),
       [Socket 3, Connect 3 ''/run/user/1000/pipewire-media-session'' 0,
        Write 3 ''zone default 0'' 14, Read 3 10 1, Close 3])"
proof -
  have hd: "(''zone'', zone, 4, ''Invalid mute value (must be between 0 and 4)'') \<in> set handlers"
    by (simp add: handlers_def)
  have role: "map_of [(''role'', ''default''), (''value'', ''abc'')] ''role'' = Some ''default''"
    by simp
  have val: "map_of [(''role'', ''default''), (''value'', ''abc'')] ''value'' = Some ''abc''"
    by simp
  have nd: "atoi ''abc'' = Inr 0 \<or> list_all (\<lambda>c. \<not> isdigit c) ''abc''"
    by (simp add: isdigit_def)
  from zero_value_sent [OF hd role val nd, of "fake_daemon 0 (Ok 100) 0 (Ok ''0'')"]
  have 1: "zone [(''role'', ''default''), (''value'', ''abc'')]
      (fake_daemon 0 (Ok 100) 0 (Ok ''0'')) =
     reply_to_caller ''zone''
       (session_comm ''zone default 0'' (replicate 10 None) 10
         (fake_daemon 0 (Ok 100) 0 (Ok ''0'')))"
    by simp
  have 2: "seen (zone [(''role'', ''default''), (''value'', ''abc'')]
       (fake_daemon 0 (Ok 100) 0 (Ok ''0''))) =
     Some (Inr (Req_success [(''zone'', 0)]),
       [Socket 3, Connect 3 ''/run/user/1000/pipewire-media-session'' 0,
        Write 3 ''zone default 0'' 14, Read 3 10 1, Close 3])"
    by code_simp
  from 1 2 show ?thesis by (rule conjI)
qed

text \<open>
  C10. When the transport succeeds, each handler reads the reply array as a C string and
  applies \<^verbatim>\<open>atoi\<close> to it, with no check that it is a decimal numeral: a reply that parses
  to \<open>n \<ge> 0\<close> gives the successful result \<open>{verb: n}\<close>, in particular 0 for a reply
  without a digit, and only a reply that parses to a negative integer gives the failure
  \<^verbatim>\<open>media-session replied -1\<close>.
\<close>

theorem reply_parsed_by_atoi:
  assumes "(verb, h, hi, msg) \<in> set handlers"
    and "map_of request ''role'' = Some role"
    and "map_of request ''value'' = None \<and> v = -1 \<or>
      (\<exists>str. map_of request ''value'' = Some str \<and> atoi str = Inr v \<and> 0 \<le> v \<and> v \<le> hi)"
    and "session_comm (take 99 (verb @ '' '' @ role @ '' '' @ fmt_d v)) (replicate 10 None) 10 s =
      Some (Inr rc, reply, s')"
    and "0 \<le> rc" and "c_str reply = Inr str" and "atoi str = Inr n"
  shows "h request s =
      Some (Inr (if n < 0 then Req_fail ''failed'' ''media-session replied -1''
                 else Req_success [(verb, n)]), s') \<and>
    (list_all (\<lambda>c. \<not> isdigit c) str \<longrightarrow> n = 0)"
proof -
  have "h request s = reply_to_caller verb
      (session_comm (take 99 (verb @ '' '' @ role @ '' '' @ fmt_d v)) (replicate 10 None) 10 s)"
    by (simp add: in_handlers [OF assms(1)] get_or_set_call [OF assms(2,3)])
  with assms(4-7) have "h request s =
      Some (Inr (if n < 0 then Req_fail ''failed'' ''media-session replied -1''
                 else Req_success [(verb, n)]), s')"
    by (simp add: reply_to_caller_def)
  moreover have "n = 0" if "list_all (\<lambda>c. \<not> isdigit c) str"
    using atoi_no_digits [OF that] assms(7) by simp
  ultimately show ?thesis by blast
qed

theorem reply_parsed_by_atoi_witness:
  "(\<exists>s'. volume [(''role'', ''default'')] (fake_daemon 0 (Ok 100) 0 (Ok ''abc'')) =
      Some (Inr (Req_success [(''volume'', 0)]), s')) \<and>
   (\<exists>s'. volume [(''role'', ''default'')] (fake_daemon 0 (Ok 100) 0 (Ok ''42 dB'')) =
      Some (Inr (Req_success [(''volume'', 42)]), s')) \<and>
   (\<exists>s'. volume [(''role'', ''default'')] (fake_daemon 0 (Ok 100) 0 (Ok ''-7'')) =
      Some (Inr (Req_fail ''failed'' ''media-session replied -1''), s'))"
proof -
  have hd: "(''volume'', volume, 100, ''Invalid volume value (must be between 0 and 100)'')
      \<in> set handlers"
    by (simp add: handlers_def)
  have role: "map_of [(''role'', ''default'')] ''role'' = Some ''default''"
    by simp
  have val: "map_of [(''role'', ''default'')] ''value'' = None \<and> (-1::int) = -1 \<or>
      (\<exists>str. map_of [(''role'', ''default'')] ''value'' = Some str \<and> atoi str = Inr (-1) \<and>
        (0::int) \<le> -1 \<and> (-1::int) \<le> 100)"
    by simp
  have cmd: "take 99 (''volume'' @ '' '' @ ''default'' @ '' '' @ fmt_d (-1)) = ''volume default -1''"
    by code_simp
  have run: "\<exists>s'. volume [(''role'', ''default'')] (fake_daemon 0 (Ok 100) 0 (Ok bs)) =
      Some (Inr (if n < 0 then Req_fail ''failed'' ''media-session replied -1''
                 else Req_success [(''volume'', n)]), s')"
    if "bs \<noteq> []" and "length bs < 10"
      and "c_str (map Some bs @ Some (CHR 0x00) # replicate (9 - length bs) None) = Inr str"
      and "atoi str = Inr n"
    for bs str n
  proof -
    from fake_daemon_success [OF _ that(1,2), of "''volume default -1''"] obtain s' where
      "session_comm ''volume default -1'' (replicate 10 None) 10
          (fake_daemon 0 (Ok 100) 0 (Ok bs)) =
        Some (Inr 0, map Some bs @ Some (CHR 0x00) # replicate (9 - length bs) None, s')"
      by auto
    from reply_parsed_by_atoi [OF hd role val this [folded cmd] order_refl that(3,4)]
    show ?thesis by blast
  qed
  have 1: "atoi ''abc'' = Inr 0" by code_simp
  have 2: "atoi ''42 dB'' = Inr 42" by code_simp
  have 3: "atoi ''-7'' = Inr (-7)" by code_simp
  from run [of "''abc''" "''abc''" 0] run [of "''42 dB''" "''42 dB''" 42]
    run [of "''-7''" "''-7''" "-7"] 1 2 3
  show ?thesis by simp
qed

end
